theory Spec2Isabelle
  imports Main "HOL-Library.AList"
begin

section \<open>Strings\<close>

text \<open>
  JavaScript strings are modelled as \<^typ>\<open>string\<close>: lists of characters, each one a
  code unit between 0 and 255. The case conversions act on the ASCII letters and leave
  every other character alone, which is what \<^verbatim>\<open>toLowerCase\<close> and
  \<^verbatim>\<open>toUpperCase\<close> do on ASCII text. The modelled code uses their results only to
  compare with ASCII words, to search for ASCII words and to keep the characters
  \<^verbatim>\<open>a-z\<close> and \<^verbatim>\<open>0-9\<close>, and no other character of that range is mapped to or from
  an ASCII letter.
\<close>

definition toLowerChar :: "char \<Rightarrow> char" where
  "toLowerChar c =
     (case map_of (zip ''ABCDEFGHIJKLMNOPQRSTUVWXYZ'' ''abcdefghijklmnopqrstuvwxyz'') c of
        Some d \<Rightarrow> d
      | None \<Rightarrow> c)"

definition toUpperChar :: "char \<Rightarrow> char" where
  "toUpperChar c =
     (case map_of (zip ''abcdefghijklmnopqrstuvwxyz'' ''ABCDEFGHIJKLMNOPQRSTUVWXYZ'') c of
        Some d \<Rightarrow> d
      | None \<Rightarrow> c)"

definition toLowerCase :: "string \<Rightarrow> string" where
  "toLowerCase s = map toLowerChar s"

definition toUpperCase :: "string \<Rightarrow> string" where
  "toUpperCase s = map toUpperChar s"

fun startsWith :: "string \<Rightarrow> string \<Rightarrow> bool" where
  "startsWith s [] = True"
| "startsWith [] (w # ws) = False"
| "startsWith (c # cs) (w # ws) = (c = w \<and> startsWith cs ws)"

text \<open>\<^verbatim>\<open>text.includes(w)\<close>: \<open>w\<close> occurs in \<open>text\<close> as a contiguous substring.\<close>

fun includesStr :: "string \<Rightarrow> string \<Rightarrow> bool" where
  "includesStr [] w = (w = [])"
| "includesStr (c # cs) w = (startsWith (c # cs) w \<or> includesStr cs w)"

text \<open>A number interpolated into a template literal: its decimal digits.\<close>

fun natToString :: "nat \<Rightarrow> string" where
  "natToString n =
     (if n < 10 then [''0123456789'' ! n]
      else natToString (n div 10) @ [''0123456789'' ! (n mod 10)])"

declare natToString.simps [simp del]

text \<open>The double-quote character, as a one-character string.\<close>

definition dquote :: string where
  "dquote = [CHR 0x22]"

text \<open>
  Truthiness of an optional string: \<^verbatim>\<open>undefined\<close> and the empty string are falsy.
  \<open>orStr a d\<close> is \<^verbatim>\<open>a || d\<close> and \<open>nullishStr a d\<close> is \<^verbatim>\<open>a ?? d\<close>.
\<close>

definition truthy :: "string option \<Rightarrow> bool" where
  "truthy v = (case v of None \<Rightarrow> False | Some s \<Rightarrow> s \<noteq> [])"

definition orStr :: "string option \<Rightarrow> string \<Rightarrow> string" where
  "orStr v d = (case v of None \<Rightarrow> d | Some s \<Rightarrow> if s = [] then d else s)"

definition nullishStr :: "string option \<Rightarrow> string \<Rightarrow> string" where
  "nullishStr v d = (case v of None \<Rightarrow> d | Some s \<Rightarrow> s)"

section \<open>Data model (types.ts)\<close>

text \<open>
  Optional fields are options. Field names follow the source; a suffix separates the
  fields that share a name across interfaces: \<open>name_i\<close> is \<^verbatim>\<open>ScannedInput.name\<close>,
  \<open>type_e\<close>, \<open>id_e\<close> and \<open>method_e\<close> are \<^verbatim>\<open>type\<close>, \<^verbatim>\<open>id\<close> and \<^verbatim>\<open>method\<close> of \<^verbatim>\<open>ScannedElement\<close>, \<open>type_p\<close> and
  \<open>description_p\<close> belong to \<^verbatim>\<open>SchemaProperty\<close>, \<open>required_p\<close> is
  \<^verbatim>\<open>ToolInputSchema.required\<close> and \<open>selector_t\<close> is \<^verbatim>\<open>ToolSchema.selector\<close>.
\<close>

datatype ScannedElementType = Form | Button

record ScannedInput =
  name_i :: string
  inputType :: string
  required :: bool
  placeholder :: "string option"
  label :: "string option"
  overrideParamDescription :: "string option"

record ToolAnnotations =
  readOnlyHint :: "bool option"
  destructiveHint :: "bool option"
  idempotentHint :: "bool option"
  openWorldHint :: "bool option"

record ScannedElement =
  type_e :: ScannedElementType
  id_e :: "string option"
  selector :: string
  action :: "string option"
  method_e :: "string option"
  inputs :: "ScannedInput list option"
  ariaLabel :: "string option"
  textContent :: "string option"
  overrideName :: "string option"
  overrideDescription :: "string option"
  overrideAnnotations :: "ToolAnnotations option"

record SchemaProperty =
  type_p :: string
  description_p :: string

text \<open>
  \<^verbatim>\<open>properties\<close> is a JavaScript object used as a dictionary: a later assignment to the
  same key replaces the earlier one, and an assignment of an object to the key
  \<^verbatim>\<open>__proto__\<close> sets the prototype and adds no key. The constant field
  \<^verbatim>\<open>type: "object"\<close> is left out.
\<close>

record ToolInputSchema =
  properties :: "string \<rightharpoonup> SchemaProperty"
  required_p :: "string list"

record ToolSchema =
  name :: string
  description :: string
  parameters :: ToolInputSchema
  selector_t :: string
  elementType :: ScannedElementType
  annotations :: "ToolAnnotations option"

section \<open>Local descriptor generation (schema.ts)\<close>

text \<open>
  \<^verbatim>\<open>toToolName\<close>: lower-case, replace every maximal run of characters outside
  \<^verbatim>\<open>[a-z0-9]\<close> by one underscore, then delete an underscore at the very start and one at
  the very end (\<^verbatim>\<open>/^_|_$/g\<close>).
\<close>

definition isTokenChar :: "char \<Rightarrow> bool" where
  "isTokenChar c = (c \<in> set ''abcdefghijklmnopqrstuvwxyz0123456789'')"

fun replaceRuns :: "bool \<Rightarrow> string \<Rightarrow> string" where
  "replaceRuns inRun [] = []"
| "replaceRuns inRun (c # cs) =
     (if isTokenChar c then c # replaceRuns False cs
      else if inRun then replaceRuns True cs
      else CHR ''_'' # replaceRuns True cs)"

definition stripEdges :: "string \<Rightarrow> string" where
  "stripEdges s =
     (let s1 = (case s of [] \<Rightarrow> [] | c # cs \<Rightarrow> if c = CHR ''_'' then cs else s)
      in if s1 \<noteq> [] \<and> last s1 = CHR ''_'' then butlast s1 else s1)"

definition toToolName :: "string \<Rightarrow> string" where
  "toToolName raw = stripEdges (replaceRuns False (toLowerCase raw))"

definition paramDescription :: "ScannedInput \<Rightarrow> string" where
  "paramDescription input =
     orStr (overrideParamDescription input)
       (orStr (label input)
         (orStr (placeholder input)
           (''The '' @ name_i input @ '' field ('' @ inputType input @ '')'')))"

definition inputProperty :: "ScannedInput \<Rightarrow> SchemaProperty" where
  "inputProperty input =
     \<lparr> type_p = (if inputType input = ''number'' then ''number'' else ''string''),
       description_p = paramDescription input \<rparr>"

fun inputsLoop :: "ScannedInput list \<Rightarrow> ToolInputSchema \<Rightarrow> ToolInputSchema" where
  "inputsLoop [] acc = acc"
| "inputsLoop (input # rest) acc =
     inputsLoop rest
       \<lparr> properties = (if name_i input = ''__proto__'' then properties acc
                       else (properties acc)(name_i input \<mapsto> inputProperty input)),
         required_p = (if required input then required_p acc @ [name_i input]
                       else required_p acc) \<rparr>"

definition inputsToSchema :: "ScannedElement \<Rightarrow> ToolInputSchema" where
  "inputsToSchema element =
     inputsLoop (case inputs element of None \<Rightarrow> [] | Some xs \<Rightarrow> xs)
       \<lparr> properties = Map.empty, required_p = [] \<rparr>"

definition inferFormAnnotations :: "string option \<Rightarrow> ToolAnnotations" where
  "inferFormAnnotations meth =
     (let m = toUpperCase (nullishStr meth ''GET'') in
      if m = ''GET'' then
        \<lparr> readOnlyHint = Some True, destructiveHint = Some False,
          idempotentHint = None, openWorldHint = None \<rparr>
      else if m = ''DELETE'' then
        \<lparr> readOnlyHint = Some False, destructiveHint = Some True,
          idempotentHint = None, openWorldHint = None \<rparr>
      else
        \<lparr> readOnlyHint = Some False, destructiveHint = None,
          idempotentHint = None, openWorldHint = Some True \<rparr>)"

definition schemaFromForm :: "ScannedElement \<Rightarrow> ToolSchema" where
  "schemaFromForm element =
     (let inputCount = (case inputs element of None \<Rightarrow> 0 | Some xs \<Rightarrow> length xs) in
      \<lparr> name = (case overrideName element of
                  Some n \<Rightarrow> n
                | None \<Rightarrow> toToolName (orStr (id_e element) ''unknown_form'')),
        description = (case overrideDescription element of
                  Some d \<Rightarrow> d
                | None \<Rightarrow> ''Submit the '' @ dquote @ orStr (id_e element) ''unknown'' @ dquote @ '' form (''
                    @ nullishStr (method_e element) ''GET'' @ '', '' @ natToString inputCount
                    @ '' field'' @ (if inputCount \<noteq> 1 then ''s'' else '''') @ '')''),
        parameters = inputsToSchema element,
        selector_t = selector element,
        elementType = Form,
        annotations = (case overrideAnnotations element of
                  Some a \<Rightarrow> Some a
                | None \<Rightarrow> Some (inferFormAnnotations (method_e element))) \<rparr>)"

definition destructiveWords :: "string list" where
  "destructiveWords = [''delete'', ''remove'', ''cancel'', ''destroy'', ''unsubscribe'']"

definition readOnlyWords :: "string list" where
  "readOnlyWords = [''search'', ''view'', ''show'', ''filter'', ''browse'', ''find'']"

text \<open>The local \<^verbatim>\<open>text\<close> of \<^verbatim>\<open>inferButtonAnnotations\<close>.\<close>

definition buttonText :: "ScannedElement \<Rightarrow> string" where
  "buttonText element = toLowerCase (orStr (ariaLabel element) (orStr (textContent element) ''''))"

definition inferButtonAnnotations :: "ScannedElement \<Rightarrow> ToolAnnotations" where
  "inferButtonAnnotations element =
     (let text = buttonText element in
      if list_ex (\<lambda>w. includesStr text w) destructiveWords then
        \<lparr> readOnlyHint = Some False, destructiveHint = Some True,
          idempotentHint = None, openWorldHint = None \<rparr>
      else if list_ex (\<lambda>w. includesStr text w) readOnlyWords then
        \<lparr> readOnlyHint = Some True, destructiveHint = Some False,
          idempotentHint = None, openWorldHint = None \<rparr>
      else
        \<lparr> readOnlyHint = None, destructiveHint = None,
          idempotentHint = Some True, openWorldHint = None \<rparr>)"

definition schemaFromButton :: "ScannedElement \<Rightarrow> ToolSchema" where
  "schemaFromButton element =
     (let label = orStr (ariaLabel element)
                    (orStr (textContent element) (orStr (id_e element) ''unknown_button'')) in
      \<lparr> name = (case overrideName element of Some n \<Rightarrow> n | None \<Rightarrow> toToolName label),
        description = (case overrideDescription element of
                  Some d \<Rightarrow> d
                | None \<Rightarrow> ''Click the '' @ dquote @ label @ dquote @ '' button''),
        parameters = \<lparr> properties = Map.empty, required_p = [] \<rparr>,
        selector_t = selector element,
        elementType = Button,
        annotations = (case overrideAnnotations element of
                  Some a \<Rightarrow> Some a
                | None \<Rightarrow> Some (inferButtonAnnotations element)) \<rparr>)"

fun generateLocalSchemas :: "ScannedElement list \<Rightarrow> ToolSchema list" where
  "generateLocalSchemas [] = []"
| "generateLocalSchemas (element # rest) =
     (case type_e element of
        Form \<Rightarrow> schemaFromForm element # generateLocalSchemas rest
      | Button \<Rightarrow> schemaFromButton element # generateLocalSchemas rest)"

section \<open>Errors\<close>

text \<open>
  A thrown JavaScript value: an \<^verbatim>\<open>Error\<close> object (or one of its subclasses, a
  \<^verbatim>\<open>DOMException\<close> included) with its name and message, or a value that is not an
  \<^verbatim>\<open>Error\<close>. A function that can throw returns \<open>error + 'a\<close>; \<open>Inl\<close> is the throw.
  Console logging is not part of the modelled state.
\<close>

datatype error = Error (errorName: string) (message: string) | NonErrorValue

section \<open>Cache and remote generation (schema.ts)\<close>

definition CACHE_KEY_PREFIX :: string where
  "CACHE_KEY_PREFIX = ''__3rdeye_schemas_''"

definition CACHE_TTL_MS :: int where
  "CACHE_TTL_MS = 5 * 60 * 1000"

text \<open>
  What \<^verbatim>\<open>JSON.parse\<close> makes of a stored item: \<open>Unparsable\<close> stands for text that does
  not parse and for \<^verbatim>\<open>null\<close> (reading a field of it throws); an \<open>Entry\<close> is an object
  whose \<^verbatim>\<open>schemas\<close> and \<^verbatim>\<open>timestamp\<close> fields may be missing. \<open>localStorage\<close> is
  \<open>None\<close> when the global is undefined or reading it throws; \<open>acceptsWrites\<close> is false
  when \<^verbatim>\<open>setItem\<close> throws (storage full).
\<close>

datatype stored = Unparsable | Entry "ToolSchema list option" "int option"

record LocalStorage =
  items :: "string \<rightharpoonup> stored"
  acceptsWrites :: bool

text \<open>The body of the \<^verbatim>\<open>try\<close> block of \<^verbatim>\<open>getCachedSchemas\<close>, given the storage.\<close>

definition readCache ::
  "LocalStorage \<Rightarrow> string \<Rightarrow> int \<Rightarrow> error + (ToolSchema list option \<times> LocalStorage)" where
  "readCache ls path now =
     (let key = CACHE_KEY_PREFIX @ path in
      case items ls key of
        None \<Rightarrow> Inr (None, ls)
      | Some Unparsable \<Rightarrow> Inl (Error ''SyntaxError'' ''JSON.parse'')
      | Some (Entry schemas ts) \<Rightarrow>
          if (case ts of None \<Rightarrow> False | Some t \<Rightarrow> now - t > CACHE_TTL_MS)
          then Inr (None, ls\<lparr> items := (items ls)(key := None) \<rparr>)
          else Inr (schemas, ls))"

definition getCachedSchemas ::
  "LocalStorage option \<Rightarrow> string \<Rightarrow> int \<Rightarrow> ToolSchema list option \<times> LocalStorage option" where
  "getCachedSchemas storage path now =
     (case storage of
        None \<Rightarrow> (None, None)
      | Some ls \<Rightarrow>
          (case readCache ls path now of
             Inl err \<Rightarrow> (None, Some ls)
           | Inr (cached, ls') \<Rightarrow> (cached, Some ls')))"

definition cacheSchemas ::
  "LocalStorage option \<Rightarrow> string \<Rightarrow> int \<Rightarrow> ToolSchema list \<Rightarrow> LocalStorage option" where
  "cacheSchemas storage path now schemas =
     (case storage of
        None \<Rightarrow> None
      | Some ls \<Rightarrow>
          if acceptsWrites ls
          then Some (ls\<lparr> items := (items ls)(CACHE_KEY_PREFIX @ path \<mapsto>
                         Entry (Some schemas) (Some now)) \<rparr>)
          else Some ls)"

text \<open>
  What the one \<^verbatim>\<open>fetch\<close> of a call meets: no connection, the 15 s abort, or a
  response with a status and a body. \<open>BadBody\<close> is a body that \<^verbatim>\<open>response.json()\<close>
  rejects or that is \<^verbatim>\<open>null\<close>; a \<open>Json\<close> body carries \<^verbatim>\<open>data.schemas\<close> and
  \<^verbatim>\<open>data.meta.source\<close>, each possibly missing.
\<close>

datatype ResponseBody = BadBody | Json "ToolSchema list option" "string option"

datatype RemoteOutcome = Unreachable | TimedOut | Response nat ResponseBody

definition responseOk :: "nat \<Rightarrow> bool" where
  "responseOk status = (200 \<le> status \<and> status \<le> 299)"

text \<open>
  The \<^verbatim>\<open>try\<close> block around the request: \<open>Inr (Some schemas)\<close> is its
  \<^verbatim>\<open>return schemas\<close>, \<open>Inr None\<close> is falling out of it after the warning, \<open>Inl\<close> is a
  throw, which the \<^verbatim>\<open>catch\<close> of \<open>fetchSchemas\<close> absorbs.
\<close>

definition tryApi :: "RemoteOutcome \<Rightarrow> error + ToolSchema list option" where
  "tryApi outcome =
     (case outcome of
        Unreachable \<Rightarrow> Inl (Error ''TypeError'' ''Failed to fetch'')
      | TimedOut \<Rightarrow> Inl (Error ''AbortError'' ''The operation was aborted'')
      | Response status body \<Rightarrow>
          if responseOk status then
            (case body of
               BadBody \<Rightarrow> Inl (Error ''SyntaxError'' ''response.json'')
             | Json schemasField source \<Rightarrow>
                 (let schemas = (case schemasField of None \<Rightarrow> [] | Some xs \<Rightarrow> xs) in
                  if length schemas > 0 then Inr (Some schemas) else Inr None))
          else Inr None)"

text \<open>
  The browser as one call of \<open>fetchSchemas\<close> sees it: the storage, the location, the clock
  when the cache is read and when it is written, and the outcome of the request if one is
  made. The call returns its value (\<open>Inl\<close> would be a throw to the caller), the storage
  it leaves and the requests it issued.
\<close>

record Page =
  localStorage :: "LocalStorage option"
  pathname :: string
  href :: string
  nowAtRead :: int
  nowAtWrite :: int
  remote :: RemoteOutcome

record Request =
  url :: string
  pageUrl :: string
  elements_r :: "ScannedElement list"

record Fetched =
  returned :: "error + ToolSchema list"
  storageAfter :: "LocalStorage option"
  requests :: "Request list"

definition allOverridden :: "ScannedElement list \<Rightarrow> bool" where
  "allOverridden elements =
     list_all (\<lambda>e. truthy (overrideName e) \<and> truthy (overrideDescription e)) elements"

definition fetchSchemas ::
  "Page \<Rightarrow> ScannedElement list \<Rightarrow> string option \<Rightarrow> bool \<Rightarrow> Fetched" where
  "fetchSchemas page elements endpoint skipCache =
     (let (cached, storage1) =
            (if skipCache then (None, localStorage page)
             else getCachedSchemas (localStorage page) (pathname page) (nowAtRead page))
      in case cached of
        Some schemas \<Rightarrow>
          \<lparr> returned = Inr schemas, storageAfter = storage1, requests = [] \<rparr>
      | None \<Rightarrow>
          if allOverridden elements then
            \<lparr> returned = Inr (generateLocalSchemas elements), storageAfter = storage1,
              requests = [] \<rparr>
          else if truthy endpoint then
            (let request = \<lparr> url = orStr endpoint [] @ ''/api/v1/generate-schema'',
                             pageUrl = href page, elements_r = elements \<rparr>
             in case tryApi (remote page) of
                  Inr (Some schemas) \<Rightarrow>
                    \<lparr> returned = Inr schemas,
                      storageAfter = cacheSchemas storage1 (pathname page) (nowAtWrite page) schemas,
                      requests = [request] \<rparr>
                | Inr None \<Rightarrow>
                    \<lparr> returned = Inr (generateLocalSchemas elements), storageAfter = storage1,
                      requests = [request] \<rparr>
                | Inl err \<Rightarrow>
                    \<lparr> returned = Inr (generateLocalSchemas elements), storageAfter = storage1,
                      requests = [request] \<rparr>)
          else
            \<lparr> returned = Inr (generateLocalSchemas elements), storageAfter = storage1,
              requests = [] \<rparr>)"

text \<open>
  Two calls in a row on the same page: the second starts from the storage the first left,
  with its own clock readings and its own outcome for a request.
\<close>

definition fetchTwice ::
  "Page \<Rightarrow> int \<Rightarrow> int \<Rightarrow> RemoteOutcome \<Rightarrow> ScannedElement list \<Rightarrow> string option
     \<Rightarrow> Fetched \<times> Fetched" where
  "fetchTwice page read2 write2 remote2 elements endpoint =
     (let first = fetchSchemas page elements endpoint False;
          second = fetchSchemas
                     (page\<lparr> localStorage := storageAfter first, nowAtRead := read2,
                            nowAtWrite := write2, remote := remote2 \<rparr>)
                     elements endpoint False
      in (first, second))"

section \<open>Telemetry (telemetry.ts)\<close>

text \<open>
  \<^verbatim>\<open>trackEvent\<close> never throws; an emitted event is appended to a log. Only the events
  of the modelled functions appear, each with the data the source attaches to it.
\<close>

datatype TelemetryEvent =
    TOOL_ATTEMPT string "(string \<times> string) list"
  | TOOL_SUCCESS string int
  | TOOL_ERROR string string int
  | USER_CONFIRMATION string bool
  | TOOL_REGISTERED string
  | SPA_NAVIGATE string string

section \<open>Tool registration and guarded execution (registrar.ts)\<close>

text \<open>
  The host runtime \<^verbatim>\<open>navigator.modelContext\<close> is outside the repository: it is a list
  of the tools it holds (each stands for the definition built from that schema, whose
  \<^verbatim>\<open>execute\<close> is \<open>execute\<close> below applied to the schema) and a predicate \<open>rejects\<close>
  that says when \<^verbatim>\<open>registerTool\<close> throws, given the tools held so far.
\<close>

record ModelContext =
  hostTools :: "ToolSchema list"
  rejects :: "ToolSchema list \<Rightarrow> ToolSchema \<Rightarrow> bool"

definition registerTool :: "ModelContext \<Rightarrow> ToolSchema \<Rightarrow> error + ModelContext" where
  "registerTool host tool =
     (if rejects host (hostTools host) tool then Inl (Error ''InvalidStateError'' ''registerTool'')
      else Inr (host\<lparr> hostTools := hostTools host @ [tool] \<rparr>))"

text \<open>
  \<open>registeredTools\<close> is the module's \<^verbatim>\<open>Map\<close> from tool name to selector, in insertion
  order; \<^verbatim>\<open>has\<close> is \<open>mapHas\<close> and \<^verbatim>\<open>set\<close> is \<^const>\<open>AList.update\<close>.
\<close>

record Registrar =
  registeredTools :: "(string \<times> string) list"
  modelContext :: "ModelContext option"
  telemetry :: "TelemetryEvent list"

definition mapHas :: "(string \<times> string) list \<Rightarrow> string \<Rightarrow> bool" where
  "mapHas m k = (map_of m k \<noteq> None)"

text \<open>One iteration of the loop of \<^verbatim>\<open>registerTools\<close>.\<close>

definition registerOne :: "Registrar \<Rightarrow> ToolSchema \<Rightarrow> Registrar" where
  "registerOne st schema =
     (if mapHas (registeredTools st) (name schema) then st
      else case modelContext st of
        None \<Rightarrow> st
      | Some host \<Rightarrow>
          (case registerTool host schema of
             Inl err \<Rightarrow> st
           | Inr host' \<Rightarrow>
               st\<lparr> modelContext := Some host',
                   registeredTools :=
                     AList.update (name schema) (selector_t schema) (registeredTools st),
                   telemetry := telemetry st @ [TOOL_REGISTERED (name schema)] \<rparr>))"

fun registerLoop :: "Registrar \<Rightarrow> ToolSchema list \<Rightarrow> Registrar" where
  "registerLoop st [] = st"
| "registerLoop st (schema # rest) = registerLoop (registerOne st schema) rest"

definition registerTools :: "Registrar \<Rightarrow> ToolSchema list \<Rightarrow> Registrar" where
  "registerTools st schemas =
     (case modelContext st of
        None \<Rightarrow> st
      | Some host \<Rightarrow> registerLoop st schemas)"

text \<open>
  The live document as an invocation meets it. \<^verbatim>\<open>document.querySelector\<close> is a
  function from the selector to the element found, if any (\<open>Inl\<close>: the selector does not
  parse). A live element answers the lookup of a field by name the same way, telling
  whether the field found is an \<^verbatim>\<open>input\<close> element, and says whether it has
  \<^verbatim>\<open>requestSubmit\<close>. What the handler does to the document is a list of actions.
\<close>

datatype FieldKind = InputField | OtherField

record LiveElement =
  findField :: "string \<Rightarrow> error + FieldKind option"
  hasRequestSubmit :: bool

datatype DomAction =
    SetValue string string
  | DispatchInput string
  | DispatchChange string
  | RequestSubmit
  | Submit
  | Click

text \<open>
  \<^verbatim>\<open>executeForm\<close>: the actions done, and the error if it threw. The value setter is
  the one of \<^verbatim>\<open>HTMLInputElement.prototype\<close> whenever that exists, and calling it on an
  element that is not an \<^verbatim>\<open>input\<close> throws a \<^verbatim>\<open>TypeError\<close>.
\<close>

fun fillInputs :: "LiveElement \<Rightarrow> (string \<times> string) list \<Rightarrow> DomAction list \<times> error option" where
  "fillInputs form [] = ([], None)"
| "fillInputs form ((n, v) # rest) =
     (case findField form n of
        Inl err \<Rightarrow> ([], Some err)
      | Inr None \<Rightarrow> fillInputs form rest
      | Inr (Some OtherField) \<Rightarrow> ([], Some (Error ''TypeError'' ''Illegal invocation''))
      | Inr (Some InputField) \<Rightarrow>
          (let (acts, err) = fillInputs form rest
           in ([SetValue n v, DispatchInput n, DispatchChange n] @ acts, err)))"

definition executeForm :: "LiveElement \<Rightarrow> (string \<times> string) list \<Rightarrow> DomAction list \<times> error option" where
  "executeForm form args =
     (case fillInputs form args of
        (acts, Some err) \<Rightarrow> (acts, Some err)
      | (acts, None) \<Rightarrow>
          (acts @ [if hasRequestSubmit form then RequestSubmit else Submit], None))"

definition executeButton :: "LiveElement \<Rightarrow> DomAction list \<times> error option" where
  "executeButton el = ([Click], None)"

text \<open>
  The client passed to an invocation: absent (or without \<^verbatim>\<open>requestUserInteraction\<close>),
  or one whose request resolves (\<open>Resolves b\<close>, where \<open>b\<close> says whether the result is
  \<^verbatim>\<open>true\<close>) or throws.
\<close>

datatype Interaction = Resolves bool | Throws

definition isDestructive :: "ToolSchema \<Rightarrow> bool" where
  "isDestructive schema =
     (case annotations schema of
        None \<Rightarrow> False
      | Some a \<Rightarrow> destructiveHint a = Some True)"

definition maybeConfirmDestructive ::
  "ToolSchema \<Rightarrow> Interaction option \<Rightarrow> bool \<times> TelemetryEvent list" where
  "maybeConfirmDestructive schema client =
     (if \<not> isDestructive schema then (True, [])
      else case client of
        None \<Rightarrow> (True, [])
      | Some (Resolves allowed) \<Rightarrow> (allowed, [USER_CONFIRMATION (name schema) allowed])
      | Some Throws \<Rightarrow> (True, []))"

text \<open>
  One invocation of the wrapped \<^verbatim>\<open>execute\<close> callback of a registered schema.
  \<open>startTime\<close> and \<open>endTime\<close> are the two readings of \<^verbatim>\<open>Date.now()\<close>. The result is
  \<open>Inl\<close> when the callback rejects (the error re-thrown to the agent).
\<close>

record Invocation =
  startTime :: int
  endTime :: int
  client :: "Interaction option"
  querySelector :: "string \<Rightarrow> error + LiveElement option"

datatype ToolResult = Succeeded string int | Denied string string

record Executed =
  result :: "error + ToolResult"
  emitted :: "TelemetryEvent list"
  actions :: "DomAction list"

definition errorMessage :: "error \<Rightarrow> string" where
  "errorMessage err = (case err of Error n m \<Rightarrow> m | NonErrorValue \<Rightarrow> ''Unknown error'')"

text \<open>Phase C: \<open>Inl\<close> when it throws, with the actions done before.\<close>

definition domInteraction ::
  "ToolSchema \<Rightarrow> Invocation \<Rightarrow> (string \<times> string) list \<Rightarrow> DomAction list \<times> error option" where
  "domInteraction schema call args =
     (case querySelector call (selector_t schema) of
        Inl err \<Rightarrow> ([], Some err)
      | Inr None \<Rightarrow>
          ([], Some (Error ''Error'' (''Element not found for selector: '' @ selector_t schema)))
      | Inr (Some el) \<Rightarrow>
          (if elementType schema = Form then executeForm el args else executeButton el))"

definition execute :: "ToolSchema \<Rightarrow> Invocation \<Rightarrow> (string \<times> string) list \<Rightarrow> Executed" where
  "execute schema call args =
     (let attempt = [TOOL_ATTEMPT (name schema) args];
          (allowed, confirmEvents) = maybeConfirmDestructive schema (client call)
      in if \<not> allowed then
           \<lparr> result = Inr (Denied (name schema) ''User denied destructive action.''),
             emitted = attempt @ confirmEvents, actions = [] \<rparr>
         else
           (case domInteraction schema call args of
              (acts, None) \<Rightarrow>
                (let duration = endTime call - startTime call in
                 \<lparr> result = Inr (Succeeded (name schema) duration),
                   emitted = attempt @ confirmEvents @ [TOOL_SUCCESS (name schema) duration],
                   actions = acts \<rparr>)
            | (acts, Some err) \<Rightarrow>
                (let duration = endTime call - startTime call in
                 \<lparr> result = Inl err,
                   emitted = attempt @ confirmEvents
                     @ [TOOL_ERROR (name schema) (errorMessage err) duration],
                   actions = acts \<rparr>)))"

section \<open>The document\<close>

text \<open>
  A document is the tree under its root element. An element has a lower-case tag name,
  its attributes (lower-case names, in source order) and its child nodes; a text node has
  its text. An element met during a traversal is \<open>located\<close>: it comes with its chain of
  ancestors, nearest first, each paired with the index, among its child nodes, of the
  child the chain passes through.
\<close>

datatype node = Text string | Elem string "(string \<times> string) list" "node list"

fun tagOf :: "node \<Rightarrow> string" where
  "tagOf (Elem t a cs) = t"
| "tagOf (Text s) = []"

fun attrsOf :: "node \<Rightarrow> (string \<times> string) list" where
  "attrsOf (Elem t a cs) = a"
| "attrsOf (Text s) = []"

fun childrenOf :: "node \<Rightarrow> node list" where
  "childrenOf (Elem t a cs) = cs"
| "childrenOf (Text s) = []"

fun isElement :: "node \<Rightarrow> bool" where
  "isElement (Elem t a cs) = True"
| "isElement (Text s) = False"

definition getAttribute :: "node \<Rightarrow> string \<Rightarrow> string option" where
  "getAttribute el n = map_of (attrsOf el) n"

definition hasAttribute :: "node \<Rightarrow> string \<Rightarrow> bool" where
  "hasAttribute el n = (getAttribute el n \<noteq> None)"

text \<open>The properties \<^verbatim>\<open>el.id\<close> and \<^verbatim>\<open>input.name\<close> reflect the attribute, empty when absent.\<close>

definition idOf :: "node \<Rightarrow> string" where
  "idOf el = nullishStr (getAttribute el ''id'') []"

definition nameOf :: "node \<Rightarrow> string" where
  "nameOf el = nullishStr (getAttribute el ''name'') []"

fun textContentOf :: "node \<Rightarrow> string" where
  "textContentOf (Text s) = s"
| "textContentOf (Elem t a cs) = concat (map textContentOf cs)"

text \<open>
  \<^verbatim>\<open>trim\<close> removes white space and line terminators at both ends: among the
  characters of a string here, the codes 9 to 13, the space and the no-break space.
\<close>

definition isWhitespace :: "char \<Rightarrow> bool" where
  "isWhitespace c =
     (c \<in> set [CHR 0x09, CHR 0x0A, CHR 0x0B, CHR 0x0C, CHR 0x0D, CHR 0x20, CHR 0xA0])"

definition trim :: "string \<Rightarrow> string" where
  "trim s = rev (dropWhile isWhitespace (rev (dropWhile isWhitespace s)))"

type_synonym located = "node \<times> (node \<times> nat) list"

text \<open>The elements of a subtree in document order, each located.\<close>

fun descend :: "(node \<times> nat) list \<Rightarrow> node \<Rightarrow> located list"
  and descendList :: "(node \<times> nat) list \<Rightarrow> node \<Rightarrow> nat \<Rightarrow> node list \<Rightarrow> located list" where
  "descend up (Text s) = []"
| "descend up (Elem t a cs) = (Elem t a cs, up) # descendList up (Elem t a cs) 0 cs"
| "descendList up parent i [] = []"
| "descendList up parent i (c # cs) =
     descend ((parent, i) # up) c @ descendList up parent (Suc i) cs"

text \<open>
  \<^verbatim>\<open>document.querySelectorAll(sel)\<close> and \<^verbatim>\<open>el.querySelectorAll(sel)\<close>, with the
  selector as a predicate on elements, and \<^verbatim>\<open>el.closest(sel)\<close>.
\<close>

definition querySelectorAll :: "(node \<Rightarrow> bool) \<Rightarrow> node \<Rightarrow> located list" where
  "querySelectorAll sel root = filter (\<lambda>loc. sel (fst loc)) (descend [] root)"

definition querySelectorAllIn :: "(node \<Rightarrow> bool) \<Rightarrow> located \<Rightarrow> located list" where
  "querySelectorAllIn sel loc =
     filter (\<lambda>d. sel (fst d)) (descendList (snd loc) (fst loc) 0 (childrenOf (fst loc)))"

definition closest :: "(node \<Rightarrow> bool) \<Rightarrow> located \<Rightarrow> node option" where
  "closest sel loc = (if sel (fst loc) then Some (fst loc) else find sel (map fst (snd loc)))"

text \<open>
  The selectors of the scanner. In an HTML document the value of a \<^verbatim>\<open>type\<close> attribute
  is compared without regard to ASCII case; the value of \<^verbatim>\<open>role\<close> is compared as it is.
\<close>

definition typeAttrIs :: "node \<Rightarrow> string \<Rightarrow> bool" where
  "typeAttrIs el v =
     (case getAttribute el ''type'' of None \<Rightarrow> False | Some t \<Rightarrow> toLowerCase t = v)"

definition selForm :: "node \<Rightarrow> bool" where
  "selForm el = (tagOf el = ''form'')"

definition selLabel :: "node \<Rightarrow> bool" where
  "selLabel el = (tagOf el = ''label'')"

definition selField :: "node \<Rightarrow> bool" where
  "selField el = (tagOf el = ''input'' \<or> tagOf el = ''select'' \<or> tagOf el = ''textarea'')"

definition selButtonLike :: "node \<Rightarrow> bool" where
  "selButtonLike el =
     (tagOf el = ''button'' \<or> getAttribute el ''role'' = Some ''button''
      \<or> (tagOf el = ''input'' \<and> typeAttrIs el ''button'')
      \<or> (tagOf el = ''input'' \<and> typeAttrIs el ''submit''))"

definition STANDARD_SELECTORS :: "node \<Rightarrow> bool" where
  "STANDARD_SELECTORS el = (selForm el \<or> selButtonLike el)"

definition selToolName :: "node \<Rightarrow> bool" where
  "selToolName el = hasAttribute el ''data-tool-name''"

text \<open>
  The properties \<^verbatim>\<open>input.type\<close> and \<^verbatim>\<open>form.method\<close> reflect their attribute limited
  to the known values, in lower case; a missing or unknown value reads as the default.
\<close>

definition knownInputTypes :: "string list" where
  "knownInputTypes =
     [''hidden'', ''text'', ''search'', ''tel'', ''url'', ''email'', ''password'', ''date'',
      ''month'', ''week'', ''time'', ''datetime-local'', ''number'', ''range'', ''color'',
      ''checkbox'', ''radio'', ''file'', ''submit'', ''image'', ''reset'', ''button'']"

definition inputTypeOf :: "node \<Rightarrow> string" where
  "inputTypeOf el =
     (let t = toLowerCase (nullishStr (getAttribute el ''type'') []) in
      if t \<in> set knownInputTypes then t else ''text'')"

definition formMethodOf :: "node \<Rightarrow> string" where
  "formMethodOf el =
     (let m = toLowerCase (nullishStr (getAttribute el ''method'') []) in
      if m \<in> set [''get'', ''post'', ''dialog''] then m else ''get'')"

text \<open>
  What the browser computes and the tree does not determine is a parameter:
  \<open>cssString\<close> gives the string a selector parser reads between the double quotes of
  \<^verbatim>\<open>label[for="..."]\<close> when the argument is spliced in there (\<open>None\<close>: the selector does
  not parse, and \<^verbatim>\<open>querySelector\<close> throws); \<open>actionUrl\<close> gives the property
  \<^verbatim>\<open>form.action\<close> from the \<^verbatim>\<open>action\<close> attribute.
\<close>

record Platform =
  cssString :: "string \<Rightarrow> string option"
  actionUrl :: "string option \<Rightarrow> string"

section \<open>Inventory scanning (scanner.ts)\<close>

fun buildSelector :: "node \<Rightarrow> (node \<times> nat) list \<Rightarrow> string" where
  "buildSelector el [] = (if idOf el \<noteq> [] then ''#'' @ idOf el else tagOf el)"
| "buildSelector el ((parent, i) # up) =
     (if idOf el \<noteq> [] then ''#'' @ idOf el
      else
        (let sameTag = (\<lambda>s. isElement s \<and> tagOf s = tagOf el);
             siblings = filter sameTag (childrenOf parent)
         in if length siblings = 1 then buildSelector parent up @ '' > '' @ tagOf el
            else
              (let idx = length (filter sameTag (take i (childrenOf parent))) + 1
               in buildSelector parent up @ '' > '' @ tagOf el @ '':nth-of-type(''
                    @ natToString idx @ '')'')))"

definition labelTextOf :: "node \<Rightarrow> string option" where
  "labelTextOf l = Some (trim (textContentOf l))"

definition findLabelText :: "Platform \<Rightarrow> node \<Rightarrow> located \<Rightarrow> error + string option" where
  "findLabelText P root loc =
     (let input = fst loc;
          wrapping = (case closest selLabel loc of
                        Some parent \<Rightarrow> labelTextOf parent
                      | None \<Rightarrow> None)
      in if idOf input \<noteq> [] then
           (case cssString P (idOf input) of
              None \<Rightarrow> Inl (Error ''SyntaxError'' ''querySelector'')
            | Some v \<Rightarrow>
                (case find (\<lambda>l. getAttribute (fst l) ''for'' = Some v)
                        (querySelectorAll selLabel root) of
                   Some l \<Rightarrow> Inr (labelTextOf (fst l))
                 | None \<Rightarrow> Inr wrapping))
         else Inr wrapping)"

definition isIgnored :: "node \<Rightarrow> bool" where
  "isIgnored el = hasAttribute el ''data-tool-ignore''"

definition readToolAttributes ::
  "node \<Rightarrow> string option \<times> string option \<times> ToolAnnotations option" where
  "readToolAttributes el =
     (let hasReadOnly = hasAttribute el ''data-tool-readonly'';
          hasDestructive = hasAttribute el ''data-tool-destructive'';
          hasIdempotent = hasAttribute el ''data-tool-idempotent'';
          hasOpenWorld = hasAttribute el ''data-tool-open-world''
      in (getAttribute el ''data-tool-name'',
          getAttribute el ''data-tool-description'',
          (if hasReadOnly \<or> hasDestructive \<or> hasIdempotent \<or> hasOpenWorld then
             Some \<lparr> readOnlyHint = (if hasReadOnly then Some True else None),
                    destructiveHint = (if hasDestructive then Some True else None),
                    idempotentHint = (if hasIdempotent then Some True else None),
                    openWorldHint = (if hasOpenWorld then Some True else None) \<rparr>
           else None)))"

text \<open>\<^verbatim>\<open>s || undefined\<close> for a string \<open>s\<close>.\<close>

definition orUndefined :: "string \<Rightarrow> string option" where
  "orUndefined s = (if s = [] then None else Some s)"

text \<open>
  A \<^verbatim>\<open>forEach\<close> whose callback returns early (\<open>Inr None\<close>), pushes one result
  (\<open>Inr (Some x)\<close>) or throws (\<open>Inl\<close>, which ends the loop).
\<close>

fun forEachCollect :: "('a \<Rightarrow> error + 'b option) \<Rightarrow> 'a list \<Rightarrow> error + 'b list" where
  "forEachCollect f [] = Inr []"
| "forEachCollect f (x # xs) =
     (case f x of
        Inl err \<Rightarrow> Inl err
      | Inr r \<Rightarrow>
          (case forEachCollect f xs of
             Inl err \<Rightarrow> Inl err
           | Inr rs \<Rightarrow> Inr ((case r of None \<Rightarrow> [] | Some y \<Rightarrow> [y]) @ rs)))"

text \<open>The callback of the loop over the fields of a form.\<close>

definition scanInput :: "Platform \<Rightarrow> node \<Rightarrow> located \<Rightarrow> error + ScannedInput option" where
  "scanInput P root loc =
     (let input = fst loc in
      if tagOf input = ''input''
         \<and> inputTypeOf input \<in> set [''hidden'', ''submit'', ''button'', ''reset'', ''image'']
      then Inr None
      else
        (let nm = orStr (Some (nameOf input)) (idOf input) in
         if nm = [] then Inr None
         else
           (case findLabelText P root loc of
              Inl err \<Rightarrow> Inl err
            | Inr lbl \<Rightarrow>
                Inr (Some
                  \<lparr> name_i = nm,
                    inputType = (if tagOf input = ''input'' then inputTypeOf input
                                 else tagOf input),
                    required = hasAttribute input ''required'',
                    placeholder = (if tagOf input = ''input''
                                   then orUndefined (nullishStr (getAttribute input ''placeholder'') [])
                                   else None),
                    label = lbl,
                    overrideParamDescription = getAttribute input ''data-tool-param'' \<rparr>))))"

text \<open>The callbacks of the three passes, one call per candidate element.\<close>

definition scanForm :: "Platform \<Rightarrow> node \<Rightarrow> located \<Rightarrow> error + ScannedElement option" where
  "scanForm P root loc =
     (let form = fst loc in
      if isIgnored form then Inr None
      else
        (let (oName, oDescription, oAnnotations) = readToolAttributes form in
         case forEachCollect (scanInput P root) (querySelectorAllIn selField loc) of
           Inl err \<Rightarrow> Inl err
         | Inr ins \<Rightarrow>
             Inr (Some
               \<lparr> type_e = Form,
                 id_e = orUndefined (idOf form),
                 selector = buildSelector form (snd loc),
                 action = orUndefined (actionUrl P (getAttribute form ''action'')),
                 method_e = Some (toUpperCase (orStr (Some (formMethodOf form)) ''GET'')),
                 inputs = Some ins,
                 ariaLabel = None,
                 textContent = None,
                 overrideName = oName,
                 overrideDescription = oDescription,
                 overrideAnnotations = oAnnotations \<rparr>)))"

definition scanButton :: "located \<Rightarrow> ScannedElement option" where
  "scanButton loc =
     (let el = fst loc in
      if isIgnored el then None
      else
        (let (oName, oDescription, oAnnotations) = readToolAttributes el;
             aria = getAttribute el ''aria-label'';
             txt = orUndefined (trim (textContentOf el));
             ident = orUndefined (idOf el)
         in if \<not> truthy oName \<and> \<not> truthy aria \<and> \<not> truthy ident \<and> \<not> truthy txt then None
            else if closest selForm loc \<noteq> None then None
            else Some
              \<lparr> type_e = Button,
                id_e = ident,
                selector = buildSelector el (snd loc),
                action = None,
                method_e = None,
                inputs = None,
                ariaLabel = aria,
                textContent = txt,
                overrideName = oName,
                overrideDescription = oDescription,
                overrideAnnotations = oAnnotations \<rparr>))"

definition scanAnnotatedElement :: "located \<Rightarrow> ScannedElement option" where
  "scanAnnotatedElement loc =
     (let el = fst loc in
      if isIgnored el then None
      else if STANDARD_SELECTORS el \<or> closest selForm loc \<noteq> None then None
      else
        (let (oName, oDescription, oAnnotations) = readToolAttributes el in
         Some
           \<lparr> type_e = Button,
             id_e = orUndefined (idOf el),
             selector = buildSelector el (snd loc),
             action = None,
             method_e = None,
             inputs = None,
             ariaLabel = getAttribute el ''aria-label'',
             textContent = orUndefined (trim (textContentOf el)),
             overrideName = oName,
             overrideDescription = oDescription,
             overrideAnnotations = oAnnotations \<rparr>))"

definition scanForms :: "Platform \<Rightarrow> node \<Rightarrow> error + ScannedElement list" where
  "scanForms P root = forEachCollect (scanForm P root) (querySelectorAll selForm root)"

definition scanButtons :: "node \<Rightarrow> ScannedElement list" where
  "scanButtons root = List.map_filter scanButton (querySelectorAll selButtonLike root)"

definition scanAnnotated :: "node \<Rightarrow> ScannedElement list" where
  "scanAnnotated root = List.map_filter scanAnnotatedElement (querySelectorAll selToolName root)"

definition scanDOM :: "Platform \<Rightarrow> node \<Rightarrow> error + ScannedElement list" where
  "scanDOM P root =
     (case scanForms P root of
        Inl err \<Rightarrow> Inl err
      | Inr forms \<Rightarrow> Inr (forms @ scanButtons root @ scanAnnotated root))"

section \<open>Change watching (watcher.ts)\<close>

text \<open>
  The module state of the watcher together with the part of the event loop it uses: the
  clock in milliseconds, the pending timers (identifier, due time and the reason the
  callback will pass on) and the next timer identifier (the browser hands out identifiers
  greater than zero, and the source tests the stored one for truthiness). \<open>observing\<close> is
  \<^verbatim>\<open>observer !== null\<close> and \<open>configured\<close> is \<^verbatim>\<open>config !== null\<close>. A run of
  \<^verbatim>\<open>handleDOMChange\<close> that gets past its \<^verbatim>\<open>config\<close> guard is a reconciliation; its
  body is not unfolded here, each one is recorded in \<open>reconciliations\<close> with its reason.
\<close>

datatype Reason = mutation | navigation

record Watcher =
  observing :: bool
  configured :: bool
  debounceTimer :: "nat option"
  currentSelectors :: "string list"
  currentUrl :: string
  now :: nat
  timers :: "(nat \<times> nat \<times> Reason) list"
  nextTimer :: nat
  reconciliations :: "Reason list"
  sent :: "TelemetryEvent list"

definition DEBOUNCE_MS :: nat where
  "DEBOUNCE_MS = 300"

definition clearTimeout :: "nat \<Rightarrow> Watcher \<Rightarrow> Watcher" where
  "clearTimeout ident w = w\<lparr> timers := filter (\<lambda>t. fst t \<noteq> ident) (timers w) \<rparr>"

definition setTimeout :: "Reason \<Rightarrow> nat \<Rightarrow> Watcher \<Rightarrow> nat \<times> Watcher" where
  "setTimeout reason delay w =
     (nextTimer w,
      w\<lparr> timers := timers w @ [(nextTimer w, now w + delay, reason)],
         nextTimer := Suc (nextTimer w) \<rparr>)"

definition handleDOMChange :: "Reason \<Rightarrow> Watcher \<Rightarrow> Watcher" where
  "handleDOMChange reason w =
     (if \<not> configured w then w
      else w\<lparr> reconciliations := reconciliations w @ [reason] \<rparr>)"

definition debouncedRescan :: "Reason \<Rightarrow> Watcher \<Rightarrow> Watcher" where
  "debouncedRescan reason w =
     (let w1 = (case debounceTimer w of
                  None \<Rightarrow> w
                | Some ident \<Rightarrow> if ident = 0 then w else clearTimeout ident w);
          (ident, w2) = setTimeout reason DEBOUNCE_MS w1
      in w2\<lparr> debounceTimer := Some ident \<rparr>)"

definition handleNavigation :: "string \<Rightarrow> Watcher \<Rightarrow> Watcher" where
  "handleNavigation newUrl w =
     (if newUrl = currentUrl w then w
      else debouncedRescan navigation
             (w\<lparr> sent := sent w @ [SPA_NAVIGATE (currentUrl w) newUrl],
                 currentUrl := newUrl \<rparr>))"

text \<open>
  The callback of the \<^verbatim>\<open>MutationObserver\<close>: a batch of records, each with the number of
  nodes it added and removed.
\<close>

definition observerCallback :: "(nat \<times> nat) list \<Rightarrow> Watcher \<Rightarrow> Watcher" where
  "observerCallback mutations w =
     (if list_ex (\<lambda>m. fst m > 0 \<or> snd m > 0) mutations then debouncedRescan mutation w
      else w)"

definition startWatching :: "string list \<Rightarrow> string \<Rightarrow> Watcher \<Rightarrow> Watcher" where
  "startWatching initialSelectors location w =
     (if observing w then w
      else w\<lparr> configured := True, currentSelectors := initialSelectors,
              currentUrl := location, observing := True \<rparr>)"

definition stopWatching :: "Watcher \<Rightarrow> Watcher" where
  "stopWatching w =
     (let w1 = w\<lparr> observing := False \<rparr>;
          w2 = (case debounceTimer w1 of
                  None \<Rightarrow> w1
                | Some ident \<Rightarrow>
                    if ident = 0 then w1
                    else (clearTimeout ident w1)\<lparr> debounceTimer := None \<rparr>)
      in w2\<lparr> currentSelectors := [], configured := False \<rparr>)"

definition isWatching :: "Watcher \<Rightarrow> bool" where
  "isWatching w = observing w"

text \<open>
  The signals the watcher is subscribed to while it observes: a batch of mutation
  records, or a \<^verbatim>\<open>popstate\<close> or \<^verbatim>\<open>hashchange\<close> event with the location at that
  moment. After \<open>stopWatching\<close> nothing is delivered.
\<close>

datatype Signal = Mutations "(nat \<times> nat) list" | Navigated string

definition deliver :: "Signal \<Rightarrow> Watcher \<Rightarrow> Watcher" where
  "deliver s w =
     (if \<not> observing w then w
      else case s of
        Mutations ms \<Rightarrow> observerCallback ms w
      | Navigated location \<Rightarrow> handleNavigation location w)"

text \<open>
  The clock moves to time \<open>t\<close>: every timer due by then fires, earliest first, and runs
  \<^verbatim>\<open>handleDOMChange\<close> with its reason.
\<close>

definition elapse :: "nat \<Rightarrow> Watcher \<Rightarrow> Watcher" where
  "elapse t w =
     (let due = sort_key (\<lambda>x. fst (snd x)) (filter (\<lambda>x. fst (snd x) \<le> t) (timers w));
          w1 = w\<lparr> timers := filter (\<lambda>x. \<not> fst (snd x) \<le> t) (timers w), now := max (now w) t \<rparr>
      in fold (\<lambda>x. handleDOMChange (snd (snd x))) due w1)"

text \<open>A run of the event loop: each signal arrives at its time, after the timers due by then.\<close>

fun run :: "(nat \<times> Signal) list \<Rightarrow> Watcher \<Rightarrow> Watcher" where
  "run [] w = w"
| "run ((t, s) # rest) w = run rest (deliver s (elapse t w))"

text \<open>
  A signal re-arms the debounce timer when it is a mutation batch with an added or removed
  node, or a navigation event whose location differs from the last one observed.
  \<open>rearming url burst\<close> counts such signals in a burst that starts with \<open>url\<close> as the
  last observed location.
\<close>

fun rearming :: "string \<Rightarrow> (nat \<times> Signal) list \<Rightarrow> nat" where
  "rearming u [] = 0"
| "rearming u ((t, Mutations ms) # rest) =
     (if list_ex (\<lambda>m. fst m > 0 \<or> snd m > 0) ms then Suc (rearming u rest) else rearming u rest)"
| "rearming u ((t, Navigated location) # rest) =
     (if location = u then rearming u rest else Suc (rearming location rest))"

text \<open>
  A burst within the debounce window that opens at time \<open>t0\<close>: the signals come in time
  order, none before \<open>t0\<close> and all less than 300 ms after it.
\<close>

definition withinWindow :: "nat \<Rightarrow> (nat \<times> Signal) list \<Rightarrow> bool" where
  "withinWindow t0 burst =
     (sorted (map fst burst) \<and> list_all (\<lambda>x. t0 \<le> fst x \<and> fst x < t0 + DEBOUNCE_MS) burst)"

section \<open>Predicates of the statements and example inputs\<close>

text \<open>\<open>mentions ws s\<close>: the text \<open>s\<close>, in lower case, contains one of the words \<open>ws\<close>.\<close>

definition mentions :: "string list \<Rightarrow> string \<Rightarrow> bool" where
  "mentions ws s = list_ex (\<lambda>w. includesStr (toLowerCase s) w) ws"

definition deleteForm :: ScannedElement where
  "deleteForm =
     \<lparr> type_e = Form, id_e = Some ''account'', selector = ''#account'', action = None,
       method_e = Some ''DELETE'', inputs = Some [], ariaLabel = None, textContent = None,
       overrideName = Some ''close_account'', overrideDescription = Some ''Close the account'',
       overrideAnnotations = None \<rparr>"



definition plainButton :: "string option \<Rightarrow> string \<Rightarrow> ScannedElement" where
  "plainButton aria txt =
     \<lparr> type_e = Button, id_e = None, selector = ''html > body > button'', action = None,
       method_e = None, inputs = None, ariaLabel = aria, textContent = Some txt,
       overrideName = None, overrideDescription = None, overrideAnnotations = None \<rparr>"



text \<open>
  A remote failure in the words of the specification: a network error, the timeout, a
  response outside 2xx, or a 2xx response with an unreadable body or without a
  non-empty array of schemas.
\<close>

definition remoteFailed :: "RemoteOutcome \<Rightarrow> bool" where
  "remoteFailed outcome =
     (case outcome of
        Unreachable \<Rightarrow> True
      | TimedOut \<Rightarrow> True
      | Response status body \<Rightarrow>
          \<not> responseOk status
          \<or> (case body of
                BadBody \<Rightarrow> True
              | Json schemasField source \<Rightarrow> schemasField = None \<or> schemasField = Some []))"

definition emptyStorage :: LocalStorage where
  "emptyStorage = \<lparr> items = Map.empty, acceptsWrites = True \<rparr>"

definition examplePage :: "RemoteOutcome \<Rightarrow> Page" where
  "examplePage outcome =
     \<lparr> localStorage = Some emptyStorage, pathname = ''/shop'',
       href = ''http://localhost:8000/shop'', nowAtRead = 0, nowAtWrite = 120,
       remote = outcome \<rparr>"

definition exampleEndpoint :: "string option" where
  "exampleEndpoint = Some ''http://localhost:3002''"

definition remoteSchema :: ToolSchema where
  "remoteSchema =
     \<lparr> name = ''delete_account'', description = ''Delete the account of the user'',
       parameters = \<lparr> properties = Map.empty, required_p = [] \<rparr>,
       selector_t = ''html > body > button'', elementType = Button,
       annotations = None \<rparr>"

text \<open>The tools the host holds, seen from the state of the registrar.\<close>

definition heldTools :: "Registrar \<Rightarrow> ToolSchema list" where
  "heldTools st = (case modelContext st of None \<Rightarrow> [] | Some host \<Rightarrow> hostTools host)"

definition named :: "string \<Rightarrow> ToolSchema list \<Rightarrow> ToolSchema list" where
  "named n tools = filter (\<lambda>t. name t = n) tools"

fun isToolSuccess :: "TelemetryEvent \<Rightarrow> bool" where
  "isToolSuccess (TOOL_SUCCESS n d) = True"
| "isToolSuccess ev = False"

fun isToolError :: "TelemetryEvent \<Rightarrow> bool" where
  "isToolError (TOOL_ERROR n m d) = True"
| "isToolError ev = False"

text \<open>
  Two hosts: one that accepts every tool, one that rejects a tool with an empty
  description. Two descriptors with the same name and different selectors, the first
  with an empty description.
\<close>

definition acceptingHost :: ModelContext where
  "acceptingHost = \<lparr> hostTools = [], rejects = (\<lambda>held tool. False) \<rparr>"

definition strictHost :: ModelContext where
  "strictHost = \<lparr> hostTools = [], rejects = (\<lambda>held tool. description tool = []) \<rparr>"

definition freshRegistrar :: "ModelContext \<Rightarrow> Registrar" where
  "freshRegistrar host = \<lparr> registeredTools = [], modelContext = Some host, telemetry = [] \<rparr>"

definition firstTool :: ToolSchema where
  "firstTool = remoteSchema\<lparr> description := [], selector_t := ''#first'' \<rparr>"

definition secondTool :: ToolSchema where
  "secondTool = remoteSchema\<lparr> selector_t := ''#second'' \<rparr>"

text \<open>
  Invocations against a document in which no selector resolves: both clock readings in
  the same millisecond and no client; or a client whose user declines.
\<close>

definition sameMillisecond :: Invocation where
  "sameMillisecond =
     \<lparr> startTime = 1000, endTime = 1000, client = None, querySelector = (\<lambda>sel. Inr None) \<rparr>"

definition userDeclines :: Invocation where
  "userDeclines =
     \<lparr> startTime = 1000, endTime = 4000, client = Some (Resolves False),
       querySelector = (\<lambda>sel. Inr None) \<rparr>"

definition destructiveTool :: ToolSchema where
  "destructiveTool =
     remoteSchema\<lparr> annotations := Some \<lparr> readOnlyHint = Some False, destructiveHint = Some True,
                                       idempotentHint = None, openWorldHint = None \<rparr> \<rparr>"



text \<open>
  A platform that reads a spliced string as it is and takes \<^verbatim>\<open>action\<close> attributes for
  absolute addresses; a page with a single bare form; a page with an ignored button, a
  button without any signal and a labelled one.
\<close>

definition examplePlatform :: Platform where
  "examplePlatform =
     \<lparr> cssString = Some, actionUrl = (\<lambda>a. nullishStr a ''http://localhost:8000/shop'') \<rparr>"



definition adminButton :: node where
  "adminButton =
     Elem ''button'' [(''id'', ''admin-btn''), (''data-tool-ignore'', '''')] [Text ''Admin Panel'']"

definition emptyButton :: node where
  "emptyButton = Elem ''button'' [(''class'', ''icon'')] [Text '' '']"

definition saveButton :: node where
  "saveButton = Elem ''button'' [] [Text ''Save'']"

definition buttonsBody :: node where
  "buttonsBody = Elem ''body'' [] [adminButton, emptyButton, saveButton]"

definition buttonsPage :: node where
  "buttonsPage = Elem ''html'' [] [buttonsBody]"

text \<open>
  The pending timers of a watcher are in order when there is none, or exactly one, which
  is the one \<open>debounceTimer\<close> names and is due between \<open>lo\<close> and \<open>hi\<close>.
\<close>

definition pendingOk :: "nat \<Rightarrow> nat \<Rightarrow> Watcher \<Rightarrow> bool" where
  "pendingOk lo hi w =
     (case timers w of
        [] \<Rightarrow> True
      | [t] \<Rightarrow> debounceTimer w = Some (fst t) \<and> 0 < fst t \<and> lo \<le> fst (snd t) \<and> fst (snd t) \<le> hi
      | t # u # others \<Rightarrow> False)"

text \<open>A watcher that has just been started, with nothing pending.\<close>

definition activeWatcher :: Watcher where
  "activeWatcher =
     \<lparr> observing = True, configured = True, debounceTimer = None, currentSelectors = [],
       currentUrl = ''http://localhost:8000/shop'', now = 0, timers = [], nextTimer = 1,
       reconciliations = [], sent = [] \<rparr>"

text \<open>
  A page with a login form whose second field carries \<^verbatim>\<open>data-tool-ignore\<close>, the form
  itself being unmarked.
\<close>

definition userField :: node where
  "userField = Elem ''input'' [(''name'', ''user''), (''type'', ''text'')] []"

definition tokenField :: node where
  "tokenField =
     Elem ''input'' [(''name'', ''token''), (''type'', ''text''), (''data-tool-ignore'', '''')] []"

definition loginForm :: node where
  "loginForm = Elem ''form'' [(''id'', ''login''), (''method'', ''post'')] [userField, tokenField]"

definition loginPage :: node where
  "loginPage = Elem ''html'' [] [Elem ''body'' [] [loginForm]]"

chapter \<open>Properties\<close>

section \<open>Local generation: overrides and inferred annotations\<close>

lemma toUpperCase_DELETE: "toUpperCase ''DELETE'' = ''DELETE''"
  by (simp add: toUpperCase_def toUpperChar_def)


text \<open>
  Claim C8. A scanned form with method \<^verbatim>\<open>DELETE\<close> that carries a name override and a
  description override but no annotation override yields one descriptor, whose name and
  description are the overrides and whose annotations are the ones inferred from the
  method: \<^verbatim>\<open>destructiveHint\<close> is true (and \<^verbatim>\<open>readOnlyHint\<close> false).
\<close>

theorem delete_form_keeps_inferred_destructive:
  assumes "type_e e = Form" and "method_e e = Some ''DELETE''"
    and "overrideName e = Some n" and "overrideDescription e = Some d"
    and "overrideAnnotations e = None"
  shows "generateLocalSchemas [e] = [schemaFromForm e]
    \<and> name (schemaFromForm e) = n
    \<and> description (schemaFromForm e) = d
    \<and> annotations (schemaFromForm e) =
        Some \<lparr> readOnlyHint = Some False, destructiveHint = Some True,
               idempotentHint = None, openWorldHint = None \<rparr>"
proof -
  have "inferFormAnnotations (Some ''DELETE'') =
      \<lparr> readOnlyHint = Some False, destructiveHint = Some True,
        idempotentHint = None, openWorldHint = None \<rparr>"
    by (simp add: inferFormAnnotations_def nullishStr_def toUpperCase_DELETE)
  then show ?thesis
    using assms by (simp add: schemaFromForm_def Let_def)
qed

theorem delete_form_keeps_inferred_destructive_witness:
  "generateLocalSchemas [deleteForm] = [schemaFromForm deleteForm]
    \<and> name (schemaFromForm deleteForm) = ''close_account''
    \<and> description (schemaFromForm deleteForm) = ''Close the account''
    \<and> annotations (schemaFromForm deleteForm) =
        Some \<lparr> readOnlyHint = Some False, destructiveHint = Some True,
               idempotentHint = None, openWorldHint = None \<rparr>"
  using delete_form_keeps_inferred_destructive
    [of deleteForm "''close_account''" "''Close the account''"]
  by (simp add: deleteForm_def)

text \<open>
  Claim C10, as stated, fails: a button whose visible text contains both a destructive
  and a read-only keyword, but whose accessible label is some other non-empty text, is
  marked idempotent. Inference reads the label alone whenever there is one.
\<close>

theorem label_hides_text_keywords:
  "mentions destructiveWords ''Delete or view items''
   \<and> mentions readOnlyWords ''Delete or view items''
   \<and> textContent (plainButton (Some ''Menu'') ''Delete or view items'')
       = Some ''Delete or view items''
   \<and> overrideAnnotations (plainButton (Some ''Menu'') ''Delete or view items'') = None
   \<and> map annotations (generateLocalSchemas [plainButton (Some ''Menu'') ''Delete or view items''])
       = [Some \<lparr> readOnlyHint = None, destructiveHint = None,
                 idempotentHint = Some True, openWorldHint = None \<rparr>]"
  by (simp add: mentions_def plainButton_def destructiveWords_def readOnlyWords_def
      toLowerCase_def toLowerChar_def schemaFromButton_def inferButtonAnnotations_def
      buttonText_def orStr_def Let_def)

text \<open>
  Claim C10, amended. For a button without an annotation override, take the text that
  inference reads: the accessible label when it is non-empty, otherwise the visible text.
  If that text contains both a destructive and a read-only keyword, the descriptor is
  marked destructive and not read-only; it is marked read-only when the text contains a
  read-only keyword and no destructive one.
\<close>

theorem destructive_words_win:
  assumes "type_e e = Button" and "overrideAnnotations e = None"
  shows "(mentions destructiveWords (orStr (ariaLabel e) (orStr (textContent e) []))
            \<and> mentions readOnlyWords (orStr (ariaLabel e) (orStr (textContent e) []))
          \<longrightarrow> map annotations (generateLocalSchemas [e]) =
                [Some \<lparr> readOnlyHint = Some False, destructiveHint = Some True,
                        idempotentHint = None, openWorldHint = None \<rparr>])
    \<and> (\<not> mentions destructiveWords (orStr (ariaLabel e) (orStr (textContent e) []))
            \<and> mentions readOnlyWords (orStr (ariaLabel e) (orStr (textContent e) []))
          \<longrightarrow> map annotations (generateLocalSchemas [e]) =
                [Some \<lparr> readOnlyHint = Some True, destructiveHint = Some False,
                        idempotentHint = None, openWorldHint = None \<rparr>])"
  using assms
  by (simp add: mentions_def schemaFromButton_def inferButtonAnnotations_def buttonText_def Let_def)

theorem destructive_words_win_witness:
  "map annotations (generateLocalSchemas [plainButton None ''Delete or view items'']) =
     [Some \<lparr> readOnlyHint = Some False, destructiveHint = Some True,
             idempotentHint = None, openWorldHint = None \<rparr>]
   \<and> map annotations (generateLocalSchemas [plainButton None ''View items'']) =
     [Some \<lparr> readOnlyHint = Some True, destructiveHint = Some False,
             idempotentHint = None, openWorldHint = None \<rparr>]"
proof -
  have m1: "mentions destructiveWords ''Delete or view items''"
    by (simp add: mentions_def destructiveWords_def toLowerCase_def toLowerChar_def)
  have m2: "mentions readOnlyWords ''Delete or view items''"
    by (simp add: mentions_def readOnlyWords_def toLowerCase_def toLowerChar_def)
  have m3: "\<not> mentions destructiveWords ''View items''"
    by (simp add: mentions_def destructiveWords_def toLowerCase_def toLowerChar_def)
  have m4: "mentions readOnlyWords ''View items''"
    by (simp add: mentions_def readOnlyWords_def toLowerCase_def toLowerChar_def)
  show ?thesis
    using destructive_words_win [of "plainButton None ''Delete or view items''"]
      destructive_words_win [of "plainButton None ''View items''"] m1 m2 m3 m4
    by (simp add: plainButton_def orStr_def)
qed














section \<open>Synthesis never throws and falls back to local generation\<close>

lemma tryApi_failed: "remoteFailed outcome \<Longrightarrow> tryApi outcome \<noteq> Inr (Some schemas)"
  by (auto simp: remoteFailed_def tryApi_def Let_def
      split: RemoteOutcome.splits ResponseBody.splits option.splits if_splits)

lemma tryApi_succeeded:
  "\<not> remoteFailed outcome \<Longrightarrow> \<exists>schemas. tryApi outcome = Inr (Some schemas) \<and> schemas \<noteq> []"
  by (auto simp: remoteFailed_def tryApi_def Let_def
      split: RemoteOutcome.splits ResponseBody.splits option.splits if_splits)

lemma fetchSchemas_returns:
  "\<exists>schemas. returned (fetchSchemas page elements endpoint skipCache) = Inr schemas"
  by (simp add: fetchSchemas_def Let_def split: prod.splits option.splits sum.splits)

lemma fetchSchemas_failed_local:
  assumes "requests (fetchSchemas page elements endpoint skipCache) \<noteq> []"
    and "remoteFailed (remote page)"
  shows "returned (fetchSchemas page elements endpoint skipCache)
           = Inr (generateLocalSchemas elements)"
  using assms tryApi_failed [of "remote page"]
  by (auto simp: fetchSchemas_def Let_def split: prod.splits option.splits sum.splits if_splits)

lemma generateLocalSchemas_length: "length (generateLocalSchemas es) = length es"
  by (induction es) (simp_all split: ScannedElementType.splits)

text \<open>
  Claim C3. Whatever the elements, the endpoint, the cache flag, the storage and the
  outcome of the request, \<open>fetchSchemas\<close> returns a value and does not throw; when it
  issued a request and the request failed, the value is the locally generated
  descriptors; and these are a non-empty list as soon as one element is a form or a
  button.
\<close>

theorem fetchSchemas_degrades_to_local:
  "(\<exists>schemas. returned (fetchSchemas page elements endpoint skipCache) = Inr schemas)
   \<and> (requests (fetchSchemas page elements endpoint skipCache) \<noteq> [] \<and> remoteFailed (remote page)
        \<longrightarrow> returned (fetchSchemas page elements endpoint skipCache)
              = Inr (generateLocalSchemas elements))
   \<and> ((\<exists>e \<in> set elements. type_e e = Form \<or> type_e e = Button)
        \<longrightarrow> generateLocalSchemas elements \<noteq> [])"
proof -
  have "generateLocalSchemas elements \<noteq> []" if "\<exists>e \<in> set elements. type_e e = Form \<or> type_e e = Button"
  proof -
    from that have "elements \<noteq> []" by auto
    then have "length (generateLocalSchemas elements) \<noteq> 0"
      by (simp add: generateLocalSchemas_length)
    then show ?thesis by auto
  qed
  then show ?thesis
    using fetchSchemas_returns fetchSchemas_failed_local by blast
qed

theorem fetchSchemas_degrades_to_local_witness:
  "requests (fetchSchemas (examplePage TimedOut) [plainButton None ''Delete Account'']
       exampleEndpoint False) \<noteq> []
   \<and> remoteFailed TimedOut
   \<and> returned (fetchSchemas (examplePage TimedOut) [plainButton None ''Delete Account'']
       exampleEndpoint False)
      = Inr (generateLocalSchemas [plainButton None ''Delete Account''])
   \<and> generateLocalSchemas [plainButton None ''Delete Account''] \<noteq> []"
proof -
  have r: "requests (fetchSchemas (examplePage TimedOut) [plainButton None ''Delete Account'']
       exampleEndpoint False) \<noteq> []"
    by (simp add: fetchSchemas_def examplePage_def emptyStorage_def getCachedSchemas_def
        readCache_def allOverridden_def plainButton_def truthy_def exampleEndpoint_def
        tryApi_def Let_def)
  have f: "remoteFailed (remote (examplePage TimedOut))"
    by (simp add: remoteFailed_def examplePage_def)
  have t: "\<exists>e \<in> set [plainButton None ''Delete Account'']. type_e e = Form \<or> type_e e = Button"
    by (simp add: plainButton_def)
  show ?thesis
    using fetchSchemas_degrades_to_local
      [of "examplePage TimedOut" "[plainButton None ''Delete Account'']" exampleEndpoint False]
      r f t
    by (simp add: examplePage_def split: ScannedElementType.splits)
qed

section \<open>The cache round trip\<close>

text \<open>
  Claim C5, as stated, fails: when the request of the first call fails, the call falls
  back to local generation and stores nothing, so a second call one second later, without
  \<^verbatim>\<open>bypassCache\<close>, sends a request again: two requests in total.
\<close>

theorem failed_first_call_is_not_cached:
  "1000 - nowAtWrite (examplePage Unreachable) \<le> CACHE_TTL_MS
   \<and> length (requests (fst (fetchTwice (examplePage Unreachable) 1000 1100 Unreachable
        [plainButton None ''Delete Account''] exampleEndpoint)))
     + length (requests (snd (fetchTwice (examplePage Unreachable) 1000 1100 Unreachable
        [plainButton None ''Delete Account''] exampleEndpoint))) = 2"
  by (simp add: fetchTwice_def fetchSchemas_def examplePage_def emptyStorage_def
      getCachedSchemas_def readCache_def allOverridden_def plainButton_def truthy_def
      exampleEndpoint_def tryApi_def CACHE_TTL_MS_def Let_def)

lemma requests_at_most_one:
  "length (requests (fetchSchemas page elements endpoint skipCache)) \<le> 1"
  by (simp add: fetchSchemas_def Let_def split: prod.splits option.splits sum.splits)

lemma getCached_keeps_writable:
  "getCachedSchemas (Some ls) path t = (c, s) \<Longrightarrow> \<exists>ls'. s = Some ls' \<and> acceptsWrites ls' = acceptsWrites ls"
  by (auto simp: getCachedSchemas_def readCache_def Let_def
      split: option.splits stored.splits sum.splits prod.splits if_splits)

lemma cache_roundtrip:
  assumes "acceptsWrites ls" and "t2 - t1 \<le> CACHE_TTL_MS"
  shows "getCachedSchemas (cacheSchemas (Some ls) path t1 schemas) path t2
           = (Some schemas, cacheSchemas (Some ls) path t1 schemas)"
  using assms by (simp add: getCachedSchemas_def cacheSchemas_def readCache_def Let_def)

lemma first_call_stores:
  assumes "requests (fetchSchemas page elements endpoint False) \<noteq> []"
    and "\<not> remoteFailed (remote page)"
    and "localStorage page = Some ls" and "acceptsWrites ls"
  shows "\<exists>schemas ls'. acceptsWrites ls'
      \<and> returned (fetchSchemas page elements endpoint False) = Inr schemas
      \<and> storageAfter (fetchSchemas page elements endpoint False)
          = cacheSchemas (Some ls') (pathname page) (nowAtWrite page) schemas"
proof -
  obtain schemas where s: "tryApi (remote page) = Inr (Some schemas)"
    using tryApi_succeeded [OF assms(2)] by blast
  obtain c st where g: "getCachedSchemas (Some ls) (pathname page) (nowAtRead page) = (c, st)"
    by (cases "getCachedSchemas (Some ls) (pathname page) (nowAtRead page)") auto
  then obtain ls' where l: "st = Some ls'" "acceptsWrites ls'"
    using getCached_keeps_writable [OF g] assms(4) by auto
  show ?thesis
    using assms(1,3) s g l
    by (auto simp: fetchSchemas_def Let_def split: option.splits if_splits)
qed

lemma successful_first_call_general:
  assumes "requests (fst (fetchTwice page read2 write2 remote2 elements endpoint)) \<noteq> []"
    and "\<not> remoteFailed (remote page)"
    and "localStorage page = Some ls" and "acceptsWrites ls"
    and "read2 - nowAtWrite page \<le> CACHE_TTL_MS"
  shows "\<exists>schemas ls'.
      returned (fst (fetchTwice page read2 write2 remote2 elements endpoint)) = Inr schemas
    \<and> storageAfter (fst (fetchTwice page read2 write2 remote2 elements endpoint)) = Some ls'
    \<and> items ls' (CACHE_KEY_PREFIX @ pathname page)
        = Some (Entry (Some schemas) (Some (nowAtWrite page)))
    \<and> returned (snd (fetchTwice page read2 write2 remote2 elements endpoint)) = Inr schemas
    \<and> requests (snd (fetchTwice page read2 write2 remote2 elements endpoint)) = []
    \<and> length (requests (fst (fetchTwice page read2 write2 remote2 elements endpoint)))
      + length (requests (snd (fetchTwice page read2 write2 remote2 elements endpoint))) = 1"
proof -
  let ?first = "fetchSchemas page elements endpoint False"
  have r: "requests ?first \<noteq> []"
    using assms(1) by (simp add: fetchTwice_def Let_def)
  obtain schemas ls' where f: "acceptsWrites ls'" "returned ?first = Inr schemas"
      "storageAfter ?first = cacheSchemas (Some ls') (pathname page) (nowAtWrite page) schemas"
    using first_call_stores [OF r assms(2,3,4)] by blast
  let ?page2 = "page\<lparr> localStorage := storageAfter ?first, nowAtRead := read2,
                      nowAtWrite := write2, remote := remote2 \<rparr>"
  have hit: "getCachedSchemas (localStorage ?page2) (pathname ?page2) (nowAtRead ?page2)
      = (Some schemas, storageAfter ?first)"
    using cache_roundtrip [OF f(1) assms(5)] f(3) by simp
  have second: "returned (fetchSchemas ?page2 elements endpoint False) = Inr schemas"
      "requests (fetchSchemas ?page2 elements endpoint False) = []"
    using hit by (simp_all add: fetchSchemas_def Let_def)
  have one: "length (requests ?first) = 1"
    using r requests_at_most_one [of page elements endpoint False]
    by (cases "requests ?first") auto
  have stored: "\<exists>l. storageAfter ?first = Some l
      \<and> items l (CACHE_KEY_PREFIX @ pathname page)
          = Some (Entry (Some schemas) (Some (nowAtWrite page)))"
    using f(1,3) by (simp add: cacheSchemas_def)
  show ?thesis
    using f(2) second one stored by (auto simp: fetchTwice_def Let_def)
qed

lemma miss_stays:
  "getCachedSchemas s p t = (None, s1) \<Longrightarrow> fst (getCachedSchemas s1 p t2) = None"
  by (auto simp: getCachedSchemas_def readCache_def Let_def
      split: option.splits stored.splits sum.splits prod.splits if_splits)

lemma failed_call_writes_nothing:
  assumes "requests (fetchSchemas page elements endpoint False) \<noteq> []"
    and "remoteFailed (remote page)"
  shows "returned (fetchSchemas page elements endpoint False) = Inr (generateLocalSchemas elements)"
    and "storageAfter (fetchSchemas page elements endpoint False)
          = snd (getCachedSchemas (localStorage page) (pathname page) (nowAtRead page))"
    and "fst (getCachedSchemas (localStorage page) (pathname page) (nowAtRead page)) = None"
    and "\<not> allOverridden elements" and "truthy endpoint"
  using assms tryApi_failed [of "remote page"]
  by (auto simp: fetchSchemas_def Let_def split: prod.splits option.splits sum.splits if_splits)

lemma miss_sends_request:
  assumes "fst (getCachedSchemas (localStorage page) (pathname page) (nowAtRead page)) = None"
    and "\<not> allOverridden elements" and "truthy endpoint"
  shows "requests (fetchSchemas page elements endpoint False) \<noteq> []"
  using assms
  by (auto simp: fetchSchemas_def Let_def split: prod.splits option.splits sum.splits)

lemma failed_first_call_general:
  assumes "requests (fst (fetchTwice page read2 write2 remote2 elements endpoint)) \<noteq> []"
    and "remoteFailed (remote page)"
  shows "returned (fst (fetchTwice page read2 write2 remote2 elements endpoint))
           = Inr (generateLocalSchemas elements)
    \<and> storageAfter (fst (fetchTwice page read2 write2 remote2 elements endpoint))
           = snd (getCachedSchemas (localStorage page) (pathname page) (nowAtRead page))
    \<and> requests (snd (fetchTwice page read2 write2 remote2 elements endpoint)) \<noteq> []"
proof -
  let ?first = "fetchSchemas page elements endpoint False"
  have r: "requests ?first \<noteq> []"
    using assms(1) by (simp add: fetchTwice_def Let_def)
  note f = failed_call_writes_nothing [OF r assms(2)]
  let ?page2 = "page\<lparr> localStorage := storageAfter ?first, nowAtRead := read2,
                      nowAtWrite := write2, remote := remote2 \<rparr>"
  obtain s1 where g: "getCachedSchemas (localStorage page) (pathname page) (nowAtRead page)
      = (None, s1)"
    using f(3) by (cases "getCachedSchemas (localStorage page) (pathname page) (nowAtRead page)") auto
  have s1: "storageAfter ?first = s1"
    using f(2) g by simp
  have "fst (getCachedSchemas (localStorage ?page2) (pathname ?page2) (nowAtRead ?page2)) = None"
    using miss_stays [OF g, of read2] s1 by simp
  then have "requests (fetchSchemas ?page2 elements endpoint False) \<noteq> []"
    using f(4,5) by (rule miss_sends_request)
  then show ?thesis
    using f(1,2) by (simp add: fetchTwice_def Let_def)
qed

text \<open>
  Claim C5, amended. Take two calls in a row without \<^verbatim>\<open>bypassCache\<close>, the first of
  which sends a request. When that request succeeds with a non-empty list of
  descriptors, and the storage is there and accepts the write, the list is stored under
  the key of the current document path with the time of the write; a second call on
  the same path that reads the clock no more than 5 minutes after that time returns the
  stored list and sends no request, so the two calls send exactly one request. When
  that request fails, the first call returns the locally generated descriptors and
  writes nothing to the storage, and the second call sends a request again.
\<close>

theorem second_call_served_from_cache:
  assumes "requests (fst (fetchTwice page read2 write2 remote2 elements endpoint)) \<noteq> []"
  shows "(\<not> remoteFailed (remote page) \<and> localStorage page = Some ls \<and> acceptsWrites ls
      \<and> read2 - nowAtWrite page \<le> CACHE_TTL_MS \<longrightarrow>
      (\<exists>schemas ls'.
          returned (fst (fetchTwice page read2 write2 remote2 elements endpoint)) = Inr schemas
        \<and> storageAfter (fst (fetchTwice page read2 write2 remote2 elements endpoint)) = Some ls'
        \<and> items ls' (CACHE_KEY_PREFIX @ pathname page)
            = Some (Entry (Some schemas) (Some (nowAtWrite page)))
        \<and> returned (snd (fetchTwice page read2 write2 remote2 elements endpoint)) = Inr schemas
        \<and> requests (snd (fetchTwice page read2 write2 remote2 elements endpoint)) = []
        \<and> length (requests (fst (fetchTwice page read2 write2 remote2 elements endpoint)))
          + length (requests (snd (fetchTwice page read2 write2 remote2 elements endpoint))) = 1))
    \<and> (remoteFailed (remote page) \<longrightarrow>
        returned (fst (fetchTwice page read2 write2 remote2 elements endpoint))
           = Inr (generateLocalSchemas elements)
      \<and> storageAfter (fst (fetchTwice page read2 write2 remote2 elements endpoint))
           = snd (getCachedSchemas (localStorage page) (pathname page) (nowAtRead page))
      \<and> requests (snd (fetchTwice page read2 write2 remote2 elements endpoint)) \<noteq> [])"
  using successful_first_call_general [OF assms, of ls] failed_first_call_general [OF assms]
  by blast

theorem second_call_served_from_cache_witness:
  "returned (snd (fetchTwice (examplePage (Response 200 (Json (Some [remoteSchema]) (Some ''ai''))))
       200000 200100 Unreachable [plainButton None ''Delete Account''] exampleEndpoint))
     = Inr [remoteSchema]
   \<and> length (requests (fst (fetchTwice
        (examplePage (Response 200 (Json (Some [remoteSchema]) (Some ''ai''))))
        200000 200100 Unreachable [plainButton None ''Delete Account''] exampleEndpoint)))
     + length (requests (snd (fetchTwice
        (examplePage (Response 200 (Json (Some [remoteSchema]) (Some ''ai''))))
        200000 200100 Unreachable [plainButton None ''Delete Account''] exampleEndpoint))) = 1
   \<and> requests (snd (fetchTwice (examplePage TimedOut) 1000 1100 TimedOut
        [plainButton None ''Delete Account''] exampleEndpoint)) \<noteq> []"
proof -
  let ?page = "examplePage (Response 200 (Json (Some [remoteSchema]) (Some ''ai'')))"
  let ?els = "[plainButton None ''Delete Account'']"
  have first: "fetchSchemas ?page ?els exampleEndpoint False =
      \<lparr> returned = Inr [remoteSchema],
        storageAfter = cacheSchemas (Some emptyStorage) ''/shop'' 120 [remoteSchema],
        requests = [\<lparr> url = ''http://localhost:3002/api/v1/generate-schema'',
                      pageUrl = ''http://localhost:8000/shop'', elements_r = ?els \<rparr>] \<rparr>"
    by (simp add: fetchSchemas_def examplePage_def emptyStorage_def getCachedSchemas_def
        readCache_def allOverridden_def plainButton_def truthy_def exampleEndpoint_def
        tryApi_def responseOk_def orStr_def Let_def)
  have h1: "requests (fst (fetchTwice ?page 200000 200100 Unreachable ?els exampleEndpoint)) \<noteq> []"
    by (simp add: fetchTwice_def Let_def first)
  have h2: "\<not> remoteFailed (remote ?page)"
    by (simp add: remoteFailed_def examplePage_def responseOk_def)
  have h3: "localStorage ?page = Some emptyStorage"
    by (simp add: examplePage_def)
  have h4: "acceptsWrites emptyStorage"
    by (simp add: emptyStorage_def)
  have h5: "200000 - nowAtWrite ?page \<le> CACHE_TTL_MS"
    by (simp add: examplePage_def CACHE_TTL_MS_def)
  have ok: "\<exists>schemas ls'.
      returned (fst (fetchTwice ?page 200000 200100 Unreachable ?els exampleEndpoint)) = Inr schemas
    \<and> storageAfter (fst (fetchTwice ?page 200000 200100 Unreachable ?els exampleEndpoint)) = Some ls'
    \<and> items ls' (CACHE_KEY_PREFIX @ pathname ?page)
        = Some (Entry (Some schemas) (Some (nowAtWrite ?page)))
    \<and> returned (snd (fetchTwice ?page 200000 200100 Unreachable ?els exampleEndpoint)) = Inr schemas
    \<and> requests (snd (fetchTwice ?page 200000 200100 Unreachable ?els exampleEndpoint)) = []
    \<and> length (requests (fst (fetchTwice ?page 200000 200100 Unreachable ?els exampleEndpoint)))
      + length (requests (snd (fetchTwice ?page 200000 200100 Unreachable ?els exampleEndpoint))) = 1"
    using second_call_served_from_cache [OF h1, of emptyStorage] h2 h3 h4 h5 by blast
  have g1: "requests (fst (fetchTwice (examplePage TimedOut) 1000 1100 TimedOut ?els
      exampleEndpoint)) \<noteq> []"
    by (simp add: fetchTwice_def fetchSchemas_def examplePage_def emptyStorage_def
        getCachedSchemas_def readCache_def allOverridden_def plainButton_def truthy_def
        exampleEndpoint_def tryApi_def Let_def)
  have g2: "remoteFailed (remote (examplePage TimedOut))"
    by (simp add: remoteFailed_def examplePage_def)
  have again: "requests (snd (fetchTwice (examplePage TimedOut) 1000 1100 TimedOut ?els
      exampleEndpoint)) \<noteq> []"
    using second_call_served_from_cache [OF g1, of emptyStorage] g2 by blast
  from ok have "returned (snd (fetchTwice ?page 200000 200100 Unreachable ?els exampleEndpoint))
      = Inr [remoteSchema]
    \<and> length (requests (fst (fetchTwice ?page 200000 200100 Unreachable ?els exampleEndpoint)))
      + length (requests (snd (fetchTwice ?page 200000 200100 Unreachable ?els exampleEndpoint))) = 1"
    by (auto simp: fetchTwice_def Let_def first)
  with again show ?thesis
    by simp
qed

section \<open>Registration is idempotent by name\<close>

lemma registerOne_present: "mapHas (registeredTools st) (name s) \<Longrightarrow> registerOne st s = st"
  by (simp add: registerOne_def)

lemma registerOne_host: "modelContext st \<noteq> None \<Longrightarrow> modelContext (registerOne st s) \<noteq> None"
  by (auto simp: registerOne_def split: option.splits sum.splits)

lemma registerLoop_host: "modelContext st \<noteq> None \<Longrightarrow> modelContext (registerLoop st xs) \<noteq> None"
proof (induction xs arbitrary: st)
  case Nil
  then show ?case by simp
next
  case (Cons x xs)
  show ?case
    using Cons.IH [OF registerOne_host [OF Cons.prems]] by simp
qed

lemma registerLoop_append: "registerLoop st (xs @ ys) = registerLoop (registerLoop st xs) ys"
  by (induction xs arbitrary: st) simp_all

lemma registerTools_append:
  "registerTools st (xs @ ys) = registerTools (registerTools st xs) ys"
proof (cases "modelContext st")
  case None
  then show ?thesis by (simp add: registerTools_def)
next
  case (Some host)
  then have "modelContext (registerLoop st xs) \<noteq> None"
    using registerLoop_host [of st xs] by simp
  with Some show ?thesis
    by (auto simp: registerTools_def registerLoop_append split: option.splits)
qed

lemma registerOne_keeps_entry:
  "map_of (registeredTools st) n = Some v \<Longrightarrow> map_of (registeredTools (registerOne st s)) n = Some v"
  by (auto simp: registerOne_def mapHas_def update_conv' split: option.splits sum.splits)

lemma registerOne_keeps_named:
  "mapHas (registeredTools st) n \<Longrightarrow> named n (heldTools (registerOne st s)) = named n (heldTools st)"
  by (auto simp: registerOne_def registerTool_def heldTools_def named_def
      split: option.splits sum.splits if_splits)

lemma registerLoop_keeps:
  "map_of (registeredTools st) n = Some v \<Longrightarrow>
     map_of (registeredTools (registerLoop st xs)) n = Some v
     \<and> named n (heldTools (registerLoop st xs)) = named n (heldTools st)"
proof (induction xs arbitrary: st)
  case Nil
  then show ?case by simp
next
  case (Cons x xs)
  have e: "map_of (registeredTools (registerOne st x)) n = Some v"
    using Cons.prems by (rule registerOne_keeps_entry)
  have h: "named n (heldTools (registerOne st x)) = named n (heldTools st)"
    using Cons.prems by (simp add: registerOne_keeps_named mapHas_def)
  show ?case
    using Cons.IH [OF e] h by simp
qed

lemma registerOne_distinct:
  "distinct (map fst (registeredTools st)) \<Longrightarrow> distinct (map fst (registeredTools (registerOne st s)))"
  by (auto simp: registerOne_def distinct_update split: option.splits sum.splits)

lemma registerLoop_distinct:
  "distinct (map fst (registeredTools st)) \<Longrightarrow> distinct (map fst (registeredTools (registerLoop st xs)))"
  by (induction xs arbitrary: st) (simp_all add: registerOne_distinct)

lemma registerLoop_all_present:
  "\<forall>s \<in> set xs. mapHas (registeredTools st) (name s) \<Longrightarrow> registerLoop st xs = st"
  by (induction xs) (simp_all add: registerOne_present)

lemma registerOne_fresh:
  assumes "modelContext st = Some host" and "\<not> mapHas (registeredTools st) (name a)"
    and "\<not> rejects host (hostTools host) a"
  shows "map_of (registeredTools (registerOne st a)) (name a) = Some (selector_t a)"
    and "heldTools (registerOne st a) = heldTools st @ [a]"
  using assms
  by (simp_all add: registerOne_def registerTool_def heldTools_def update_conv')

text \<open>
  Claim C4, amended. Registering a descriptor whose name is already in the registry is
  a no-op: the registry, the host runtime and the telemetry log are what they were, and
  a batch made only of such descriptors leaves the whole state unchanged. The names in
  the registry stay pairwise distinct. A batch is processed in order (a batch split in
  two gives the same state). When a descriptor whose name is not yet registered is
  accepted by the host runtime, the registry maps its name to its selector after the
  whole batch, and no later descriptor of that name reaches the host: every later one
  is skipped. A descriptor that the host runtime rejects is not recorded and changes
  nothing, so that the next descriptor of the same name that the host accepts is the
  one registered; and without a host runtime nothing is registered at all.
\<close>

theorem registration_skips_present_names:
  "(mapHas (registeredTools st) (name s) \<longrightarrow> registerOne st s = st)
   \<and> ((\<forall>s \<in> set batch. mapHas (registeredTools st) (name s)) \<longrightarrow> registerTools st batch = st)
   \<and> (distinct (map fst (registeredTools st))
        \<longrightarrow> distinct (map fst (registeredTools (registerTools st batch))))
   \<and> registerTools st (batch @ rest) = registerTools (registerTools st batch) rest
   \<and> (modelContext st = Some host \<and> \<not> mapHas (registeredTools st) (name a)
        \<and> \<not> rejects host (hostTools host) a
        \<longrightarrow> map_of (registeredTools (registerTools st (a # rest))) (name a) = Some (selector_t a)
          \<and> named (name a) (heldTools (registerTools st (a # rest)))
              = named (name a) (heldTools st) @ [a])
   \<and> (modelContext st = Some host \<and> rejects host (hostTools host) a
        \<longrightarrow> registerOne st a = st)
   \<and> (modelContext st = None \<longrightarrow> registerTools st batch = st)
   \<and> (modelContext st = Some host \<and> \<not> mapHas (registeredTools st) (name a)
        \<and> rejects host (hostTools host) a
        \<and> name b = name a \<and> \<not> rejects host (hostTools host) b
        \<longrightarrow> map_of (registeredTools (registerTools st (a # b # rest))) (name a)
              = Some (selector_t b))"
proof -
  have p2: "registerTools st batch = st" if "\<forall>s \<in> set batch. mapHas (registeredTools st) (name s)"
    using that by (simp add: registerTools_def registerLoop_all_present split: option.splits)
  have p3: "distinct (map fst (registeredTools (registerTools st batch)))"
    if "distinct (map fst (registeredTools st))"
    using that by (simp add: registerTools_def registerLoop_distinct split: option.splits)
  have p5: "map_of (registeredTools (registerTools st (a # rest))) (name a) = Some (selector_t a)
          \<and> named (name a) (heldTools (registerTools st (a # rest)))
              = named (name a) (heldTools st) @ [a]"
    if h: "modelContext st = Some host" "\<not> mapHas (registeredTools st) (name a)"
      "\<not> rejects host (hostTools host) a"
  proof -
    note f = registerOne_fresh [OF h]
    have "named (name a) (heldTools (registerOne st a)) = named (name a) (heldTools st) @ [a]"
      by (simp add: f(2) named_def)
    with registerLoop_keeps [OF f(1), of rest] h(1) show ?thesis
      by (simp add: registerTools_def)
  qed
  have p6: "registerOne st a = st"
    if "modelContext st = Some host" "rejects host (hostTools host) a"
    using that by (simp add: registerOne_def registerTool_def)
  have p7: "registerTools st batch = st" if "modelContext st = None"
    using that by (simp add: registerTools_def)
  have p8: "map_of (registeredTools (registerTools st (a # b # rest))) (name a)
              = Some (selector_t b)"
    if h: "modelContext st = Some host" "\<not> mapHas (registeredTools st) (name a)"
      "rejects host (hostTools host) a" "name b = name a" "\<not> rejects host (hostTools host) b"
  proof -
    have same: "registerTools st (a # b # rest) = registerTools st (b # rest)"
      using h(1) p6 [OF h(1,3)] by (simp add: registerTools_def)
    have nb: "\<not> mapHas (registeredTools st) (name b)"
      using h(2,4) by simp
    note f = registerOne_fresh [OF h(1) nb h(5)]
    have "map_of (registeredTools (registerTools st (b # rest))) (name b) = Some (selector_t b)"
      using registerLoop_keeps [OF f(1), of rest] h(1) by (simp add: registerTools_def)
    then show ?thesis
      by (simp add: same h(4))
  qed
  have c1: "mapHas (registeredTools st) (name s) \<longrightarrow> registerOne st s = st"
    using registerOne_present by blast
  have c2: "(\<forall>s \<in> set batch. mapHas (registeredTools st) (name s))
      \<longrightarrow> registerTools st batch = st"
    using p2 by blast
  have c3: "distinct (map fst (registeredTools st))
        \<longrightarrow> distinct (map fst (registeredTools (registerTools st batch)))"
    using p3 by blast
  have c4: "registerTools st (batch @ rest) = registerTools (registerTools st batch) rest"
    by (rule registerTools_append)
  have c5: "modelContext st = Some host \<and> \<not> mapHas (registeredTools st) (name a)
        \<and> \<not> rejects host (hostTools host) a
        \<longrightarrow> map_of (registeredTools (registerTools st (a # rest))) (name a) = Some (selector_t a)
          \<and> named (name a) (heldTools (registerTools st (a # rest)))
              = named (name a) (heldTools st) @ [a]"
    using p5 by blast
  have c6: "modelContext st = Some host \<and> rejects host (hostTools host) a
        \<longrightarrow> registerOne st a = st"
    using p6 by blast
  have c7: "modelContext st = None \<longrightarrow> registerTools st batch = st"
    using p7 by blast
  have c8: "modelContext st = Some host \<and> \<not> mapHas (registeredTools st) (name a)
        \<and> rejects host (hostTools host) a
        \<and> name b = name a \<and> \<not> rejects host (hostTools host) b
        \<longrightarrow> map_of (registeredTools (registerTools st (a # b # rest))) (name a)
              = Some (selector_t b)"
    using p8 by blast
  show ?thesis
    using c1 c2 c3 c4 c5 c6 c7 c8 by (intro conjI)
qed

theorem registration_skips_present_names_witness:
  "registeredTools (registerTools (freshRegistrar acceptingHost) [firstTool, secondTool])
     = [(''delete_account'', ''#first'')]
   \<and> heldTools (registerTools (freshRegistrar acceptingHost) [firstTool, secondTool]) = [firstTool]
   \<and> registerTools (registerTools (freshRegistrar acceptingHost) [firstTool]) [secondTool]
     = registerTools (freshRegistrar acceptingHost) [firstTool]
   \<and> registerOne (freshRegistrar strictHost) firstTool = freshRegistrar strictHost
   \<and> map_of (registeredTools (registerTools (freshRegistrar strictHost) [firstTool, secondTool]))
        ''delete_account'' = Some ''#second''"
proof -
  let ?st1 = "registerTools (freshRegistrar acceptingHost) [firstTool]"
  have st1: "?st1 = \<lparr> registeredTools = [(''delete_account'', ''#first'')],
      modelContext = Some (acceptingHost\<lparr> hostTools := [firstTool] \<rparr>),
      telemetry = [TOOL_REGISTERED ''delete_account''] \<rparr>"
    by (simp add: registerTools_def registerOne_def registerTool_def freshRegistrar_def
        acceptingHost_def firstTool_def remoteSchema_def mapHas_def)
  have h1: "\<forall>s \<in> set [secondTool]. mapHas (registeredTools ?st1) (name s)"
    by (simp add: st1 secondTool_def remoteSchema_def mapHas_def)
  have h2: "distinct (map fst (registeredTools ?st1))"
    by (simp add: st1)
  have h3: "modelContext (freshRegistrar acceptingHost) = Some acceptingHost
      \<and> \<not> mapHas (registeredTools (freshRegistrar acceptingHost)) (name firstTool)
      \<and> \<not> rejects acceptingHost (hostTools acceptingHost) firstTool"
    by (simp add: freshRegistrar_def acceptingHost_def mapHas_def)
  have a: "registerTools ?st1 [secondTool] = ?st1"
    using registration_skips_present_names [of ?st1 secondTool "[secondTool]" "[]"] h1 h2
    by simp
  have b: "registerTools (freshRegistrar acceptingHost) ([firstTool] @ [secondTool])
      = registerTools ?st1 [secondTool]"
    using registration_skips_present_names
      [of "freshRegistrar acceptingHost" firstTool "[firstTool]" "[secondTool]"]
    by blast
  have c: "map_of (registeredTools (registerTools (freshRegistrar acceptingHost)
        (firstTool # [secondTool]))) (name firstTool) = Some (selector_t firstTool)"
    using registration_skips_present_names
      [of "freshRegistrar acceptingHost" firstTool "[]" "[secondTool]" acceptingHost firstTool] h3
    by blast
  have h4: "modelContext (freshRegistrar strictHost) = Some strictHost"
    "\<not> mapHas (registeredTools (freshRegistrar strictHost)) (name firstTool)"
    "rejects strictHost (hostTools strictHost) firstTool"
    "name secondTool = name firstTool"
    "\<not> rejects strictHost (hostTools strictHost) secondTool"
    by (simp_all add: freshRegistrar_def strictHost_def mapHas_def firstTool_def secondTool_def
        remoteSchema_def)
  note t = registration_skips_present_names
      [where st = "freshRegistrar strictHost" and host = strictHost and a = firstTool
         and b = secondTool and rest = "[]"]
  have d: "registerOne (freshRegistrar strictHost) firstTool = freshRegistrar strictHost"
    using t h4 by blast
  have e: "map_of (registeredTools (registerTools (freshRegistrar strictHost)
        [firstTool, secondTool])) (name firstTool) = Some (selector_t secondTool)"
    using t h4 by blast
  have n: "name firstTool = ''delete_account''" "selector_t secondTool = ''#second''"
    by (simp_all add: firstTool_def secondTool_def remoteSchema_def)
  have abc: "registeredTools (registerTools (freshRegistrar acceptingHost) [firstTool, secondTool])
     = [(''delete_account'', ''#first'')]
   \<and> heldTools (registerTools (freshRegistrar acceptingHost) [firstTool, secondTool]) = [firstTool]
   \<and> registerTools (registerTools (freshRegistrar acceptingHost) [firstTool]) [secondTool]
     = registerTools (freshRegistrar acceptingHost) [firstTool]"
    using a b c by (simp add: st1 heldTools_def)
  show ?thesis
    using abc d e by (simp add: n)
qed

text \<open>
  Claim C4, as stated, fails: when the host runtime rejects the first of two descriptors
  that share a name (the failure is caught and logged), the name is not in the registry
  when the second one comes, and the second one is registered, not skipped.
\<close>

theorem later_duplicate_registered_after_rejection:
  "name firstTool = name secondTool
   \<and> registeredTools (registerTools (freshRegistrar strictHost) [firstTool, secondTool])
       = [(name secondTool, selector_t secondTool)]
   \<and> heldTools (registerTools (freshRegistrar strictHost) [firstTool, secondTool]) = [secondTool]"
  by (simp add: registerTools_def registerOne_def registerTool_def freshRegistrar_def
      strictHost_def firstTool_def secondTool_def remoteSchema_def mapHas_def heldTools_def)

section \<open>Invoking a tool whose element is gone\<close>

lemma confirm_events_neutral:
  "list_all (\<lambda>ev. \<not> isToolSuccess ev \<and> \<not> isToolError ev) (snd (maybeConfirmDestructive schema c))"
  by (simp add: maybeConfirmDestructive_def split: option.splits Interaction.splits)

text \<open>
  Claim C1, as stated, fails in two ways on a tool whose selector no longer resolves.
  When both clock readings fall in the same millisecond the \<^verbatim>\<open>TOOL_ERROR\<close> event
  carries the duration 0. And when the tool is destructive and the user declines the
  confirmation, the handler returns the decline before it looks the element up: no
  \<^verbatim>\<open>TOOL_ERROR\<close> is emitted and nothing is thrown.
\<close>

theorem zero_duration_and_decline:
  "querySelector sameMillisecond (selector_t remoteSchema) = Inr None
   \<and> emitted (execute remoteSchema sameMillisecond []) =
       [TOOL_ATTEMPT ''delete_account'' [],
        TOOL_ERROR ''delete_account'' ''Element not found for selector: html > body > button'' 0]
   \<and> querySelector userDeclines (selector_t destructiveTool) = Inr None
   \<and> result (execute destructiveTool userDeclines []) =
       Inr (Denied ''delete_account'' ''User denied destructive action.'')
   \<and> emitted (execute destructiveTool userDeclines []) =
       [TOOL_ATTEMPT ''delete_account'' [], USER_CONFIRMATION ''delete_account'' False]"
  by (simp add: execute_def domInteraction_def maybeConfirmDestructive_def isDestructive_def
      sameMillisecond_def userDeclines_def destructiveTool_def remoteSchema_def errorMessage_def
      Let_def)

text \<open>
  Claim C1, amended. Take an invocation of the wrapped handler of a tool whose selector
  resolves to no element. If the confirmation phase lets it proceed (the tool is not
  destructive, or no client can confirm, or the user confirms, or the request for
  confirmation fails), the handler rejects with the not-found error, and it emits the
  attempt, the confirmation event if any, and then one \<^verbatim>\<open>TOOL_ERROR\<close> with the
  message of that error and the difference of the two clock readings as duration (which
  can be 0); it emits no \<^verbatim>\<open>TOOL_SUCCESS\<close> and does nothing to the document. If the
  user declines, it returns the decline result and emits neither event.
\<close>

theorem missing_element_error_reported_and_rethrown:
  assumes "querySelector call (selector_t schema) = Inr None"
  shows "(fst (maybeConfirmDestructive schema (client call)) \<longrightarrow>
            result (execute schema call args)
              = Inl (Error ''Error'' (''Element not found for selector: '' @ selector_t schema))
          \<and> emitted (execute schema call args)
              = [TOOL_ATTEMPT (name schema) args]
                @ snd (maybeConfirmDestructive schema (client call))
                @ [TOOL_ERROR (name schema)
                     (''Element not found for selector: '' @ selector_t schema)
                     (endTime call - startTime call)]
          \<and> \<not> list_ex isToolSuccess (emitted (execute schema call args))
          \<and> actions (execute schema call args) = [])
     \<and> (\<not> fst (maybeConfirmDestructive schema (client call)) \<longrightarrow>
            result (execute schema call args)
              = Inr (Denied (name schema) ''User denied destructive action.'')
          \<and> \<not> list_ex isToolError (emitted (execute schema call args))
          \<and> \<not> list_ex isToolSuccess (emitted (execute schema call args))
          \<and> actions (execute schema call args) = [])"
proof -
  obtain allowed evs where m: "maybeConfirmDestructive schema (client call) = (allowed, evs)"
    by (cases "maybeConfirmDestructive schema (client call)") auto
  have n: "list_all (\<lambda>ev. \<not> isToolSuccess ev \<and> \<not> isToolError ev) evs"
    using confirm_events_neutral [of schema "client call"] m by simp
  then have n': "\<not> list_ex isToolSuccess evs" "\<not> list_ex isToolError evs"
    by (auto simp: list_all_iff list_ex_iff)
  show ?thesis
    using assms m n'
    by (simp add: execute_def domInteraction_def errorMessage_def Let_def)
qed

theorem missing_element_error_reported_and_rethrown_witness:
  "result (execute remoteSchema (sameMillisecond\<lparr> endTime := 1003 \<rparr>) [])
     = Inl (Error ''Error'' ''Element not found for selector: html > body > button'')
   \<and> emitted (execute remoteSchema (sameMillisecond\<lparr> endTime := 1003 \<rparr>) [])
     = [TOOL_ATTEMPT ''delete_account'' [],
        TOOL_ERROR ''delete_account'' ''Element not found for selector: html > body > button'' 3]
   \<and> result (execute destructiveTool userDeclines [])
     = Inr (Denied ''delete_account'' ''User denied destructive action.'')"
proof -
  have q1: "querySelector (sameMillisecond\<lparr> endTime := 1003 \<rparr>) (selector_t remoteSchema) = Inr None"
    by (simp add: sameMillisecond_def)
  have c1: "maybeConfirmDestructive remoteSchema (client (sameMillisecond\<lparr> endTime := 1003 \<rparr>))
      = (True, [])"
    by (simp add: maybeConfirmDestructive_def isDestructive_def remoteSchema_def)
  have q2: "querySelector userDeclines (selector_t destructiveTool) = Inr None"
    by (simp add: userDeclines_def)
  have c2: "maybeConfirmDestructive destructiveTool (client userDeclines)
      = (False, [USER_CONFIRMATION ''delete_account'' False])"
    by (simp add: maybeConfirmDestructive_def isDestructive_def destructiveTool_def
        remoteSchema_def userDeclines_def)
  have s: "name remoteSchema = ''delete_account''" "name destructiveTool = ''delete_account''"
    "selector_t remoteSchema = ''html > body > button''"
    "startTime (sameMillisecond\<lparr> endTime := 1003 \<rparr>) = 1000"
    by (simp_all add: remoteSchema_def destructiveTool_def sameMillisecond_def)
  show ?thesis
    using missing_element_error_reported_and_rethrown [OF q1, of "[]"]
      missing_element_error_reported_and_rethrown [OF q2, of "[]"] c1 c2 s
    by simp
qed

section \<open>The ignore marker\<close>

lemma map_filter_skip:
  "(\<And>x. x \<in> set xs \<Longrightarrow> \<not> keep x \<Longrightarrow> f x = None)
     \<Longrightarrow> List.map_filter f (filter keep xs) = List.map_filter f xs"
  by (induction xs) (auto simp: List.map_filter_simps split: option.splits)

lemma forEachCollect_skip:
  "(\<And>x. x \<in> set xs \<Longrightarrow> \<not> keep x \<Longrightarrow> f x = Inr None)
     \<Longrightarrow> forEachCollect f (filter keep xs) = forEachCollect f xs"
  by (induction xs) (auto split: sum.splits)

lemma ignored_skipped:
  assumes "isIgnored (fst loc)"
  shows "scanForm P root loc = Inr None" and "scanButton loc = None"
    and "scanAnnotatedElement loc = None"
  using assms by (simp_all add: scanForm_def scanButton_def scanAnnotatedElement_def Let_def)

text \<open>
  A candidate of a pass that carries \<^verbatim>\<open>data-tool-ignore\<close> yields no entry in any of
  the three passes, whatever its other attributes, its content and its position: the
  callback of each pass returns at its first test (for a form, before any field is
  read). So each pass yields what it yields on its candidates that are not ignored.
\<close>

theorem ignored_candidates_skipped:
  "(isIgnored el \<longrightarrow>
      scanForm P root (el, up) = Inr None \<and> scanButton (el, up) = None
      \<and> scanAnnotatedElement (el, up) = None)
   \<and> scanForms P root
       = forEachCollect (scanForm P root)
           (filter (\<lambda>loc. \<not> isIgnored (fst loc)) (querySelectorAll selForm root))
   \<and> scanButtons root
       = List.map_filter scanButton
           (filter (\<lambda>loc. \<not> isIgnored (fst loc)) (querySelectorAll selButtonLike root))
   \<and> scanAnnotated root
       = List.map_filter scanAnnotatedElement
           (filter (\<lambda>loc. \<not> isIgnored (fst loc)) (querySelectorAll selToolName root))"
proof -
  have a: "scanForms P root
       = forEachCollect (scanForm P root)
           (filter (\<lambda>loc. \<not> isIgnored (fst loc)) (querySelectorAll selForm root))"
    unfolding scanForms_def
    by (rule forEachCollect_skip [symmetric]) (simp add: ignored_skipped)
  have b: "scanButtons root
       = List.map_filter scanButton
           (filter (\<lambda>loc. \<not> isIgnored (fst loc)) (querySelectorAll selButtonLike root))"
    unfolding scanButtons_def
    by (rule map_filter_skip [symmetric]) (simp add: ignored_skipped)
  have c: "scanAnnotated root
       = List.map_filter scanAnnotatedElement
           (filter (\<lambda>loc. \<not> isIgnored (fst loc)) (querySelectorAll selToolName root))"
    unfolding scanAnnotated_def
    by (rule map_filter_skip [symmetric]) (simp add: ignored_skipped)
  show ?thesis
    using a b c ignored_skipped [of "(el, up)"] by simp
qed

lemma buttonsPage_scan:
  "scanDOM examplePlatform buttonsPage =
     Inr [\<lparr> type_e = Button, id_e = None, selector = ''html > body > button:nth-of-type(3)'',
            action = None, method_e = None, inputs = None, ariaLabel = None,
            textContent = Some ''Save'', overrideName = None, overrideDescription = None,
            overrideAnnotations = None \<rparr>]"
  by code_simp

theorem ignored_candidates_skipped_example:
  "isIgnored adminButton
   \<and> scanDOM examplePlatform buttonsPage =
       Inr [\<lparr> type_e = Button, id_e = None, selector = ''html > body > button:nth-of-type(3)'',
              action = None, method_e = None, inputs = None, ariaLabel = None,
              textContent = Some ''Save'', overrideName = None, overrideDescription = None,
              overrideAnnotations = None \<rparr>]
   \<and> scanButton (adminButton, [(buttonsBody, 0), (buttonsPage, 0)]) = None
   \<and> scanForm examplePlatform buttonsPage (adminButton, [(buttonsBody, 0), (buttonsPage, 0)])
       = Inr None
   \<and> scanAnnotatedElement (adminButton, [(buttonsBody, 0), (buttonsPage, 0)]) = None"
proof -
  have i: "isIgnored adminButton"
    by (simp add: isIgnored_def hasAttribute_def getAttribute_def adminButton_def)
  show ?thesis
    using ignored_candidates_skipped
      [where el = adminButton and P = examplePlatform and root = buttonsPage
         and up = "[(buttonsBody, 0), (buttonsPage, 0)]"] i buttonsPage_scan
    by simp
qed

text \<open>
  Claim C7 does not hold of the fields of a form. The loop over the fields never looks
  at the marker: a field that carries \<^verbatim>\<open>data-tool-ignore\<close> inside a form that is not
  marked is listed among the inputs of the scanned form, here the field \<open>token\<close>.
\<close>

theorem ignored_field_is_scanned:
  "isIgnored tokenField \<and> \<not> isIgnored loginForm
   \<and> scanDOM examplePlatform loginPage =
       Inr [\<lparr> type_e = Form, id_e = Some ''login'', selector = ''#login'',
              action = Some ''http://localhost:8000/shop'', method_e = Some ''POST'',
              inputs = Some
                [\<lparr> name_i = ''user'', inputType = ''text'', required = False,
                    placeholder = None, label = None, overrideParamDescription = None \<rparr>,
                 \<lparr> name_i = ''token'', inputType = ''text'', required = False,
                    placeholder = None, label = None, overrideParamDescription = None \<rparr>],
              ariaLabel = None, textContent = None,
              overrideName = None, overrideDescription = None, overrideAnnotations = None \<rparr>]"
  by code_simp

section \<open>Elements without identifying signal\<close>




















section \<open>Debounced reconciliation\<close>

lemma pendingOk_same:
  "timers w' = timers w \<Longrightarrow> debounceTimer w' = debounceTimer w
     \<Longrightarrow> pendingOk lo hi w' = pendingOk lo hi w"
  by (simp add: pendingOk_def split: list.splits)

lemma elapse_early:
  assumes "pendingOk lo hi w" and "t < lo"
  shows "elapse t w = w\<lparr> now := max (now w) t \<rparr>"
proof (cases "timers w")
  case Nil
  then show ?thesis by (simp add: elapse_def)
next
  case (Cons x xs)
  with assms have "xs = []" and "\<not> fst (snd x) \<le> t"
    by (auto simp: pendingOk_def split: list.splits)
  with Cons show ?thesis by (simp add: elapse_def)
qed

lemma debouncedRescan_arms:
  assumes "pendingOk lo hi w"
  shows "debouncedRescan r w =
      w\<lparr> timers := [(nextTimer w, now w + DEBOUNCE_MS, r)],
         nextTimer := Suc (nextTimer w), debounceTimer := Some (nextTimer w) \<rparr>"
proof (cases "timers w")
  case Nil
  then show ?thesis
    by (simp add: debouncedRescan_def setTimeout_def clearTimeout_def Let_def
        split: option.splits)
next
  case (Cons x xs)
  with assms have "xs = []" and "debounceTimer w = Some (fst x)" and "0 < fst x"
    by (auto simp: pendingOk_def split: list.splits)
  with Cons show ?thesis
    by (simp add: debouncedRescan_def setTimeout_def clearTimeout_def Let_def)
qed

lemma debouncedRescan_fields:
  assumes "pendingOk lo hi w"
  shows "observing (debouncedRescan r w) = observing w"
    and "configured (debouncedRescan r w) = configured w"
    and "nextTimer (debouncedRescan r w) = Suc (nextTimer w)"
    and "timers (debouncedRescan r w) = [(nextTimer w, now w + DEBOUNCE_MS, r)]"
    and "debounceTimer (debouncedRescan r w) = Some (nextTimer w)"
    and "now (debouncedRescan r w) = now w"
    and "reconciliations (debouncedRescan r w) = reconciliations w"
    and "currentUrl (debouncedRescan r w) = currentUrl w"
  by (simp_all add: debouncedRescan_arms [OF assms])

lemma debouncedRescan_pending:
  assumes "pendingOk lo hi w" and "0 < nextTimer w"
    and "lo \<le> now w + DEBOUNCE_MS" and "now w + DEBOUNCE_MS \<le> hi"
  shows "pendingOk lo hi (debouncedRescan r w)"
  using assms(2,3,4) by (simp add: pendingOk_def debouncedRescan_fields [OF assms(1)])

lemma deliver_ignored:
  "rearming (currentUrl w) [(t, s)] = 0 \<Longrightarrow> deliver s w = w"
  by (cases s) (simp_all add: deliver_def observerCallback_def handleNavigation_def split: if_splits)

lemma deliver_mutations:
  "observing w \<Longrightarrow> list_ex (\<lambda>m. fst m > 0 \<or> snd m > 0) ms
     \<Longrightarrow> deliver (Mutations ms) w = debouncedRescan mutation w"
  by (simp add: deliver_def observerCallback_def)

lemma deliver_navigated:
  "observing w \<Longrightarrow> u \<noteq> currentUrl w
     \<Longrightarrow> deliver (Navigated u) w
         = debouncedRescan navigation
             (w\<lparr> sent := sent w @ [SPA_NAVIGATE (currentUrl w) u], currentUrl := u \<rparr>)"
  by (simp add: deliver_def handleNavigation_def)

lemma deliver_step:
  assumes "observing w" and "0 < nextTimer w" and "pendingOk lo hi w"
    and "lo \<le> now w + DEBOUNCE_MS" and "now w + DEBOUNCE_MS \<le> hi"
  shows "observing (deliver s w) \<and> configured (deliver s w) = configured w
    \<and> 0 < nextTimer (deliver s w) \<and> pendingOk lo hi (deliver s w)
    \<and> now (deliver s w) = now w
    \<and> reconciliations (deliver s w) = reconciliations w
    \<and> (timers (deliver s w) = [] \<longleftrightarrow> timers w = [] \<and> rearming (currentUrl w) [(t, s)] = 0)
    \<and> rearming (currentUrl w) ((t, s) # rest)
        = rearming (currentUrl w) [(t, s)] + rearming (currentUrl (deliver s w)) rest"
proof (cases "rearming (currentUrl w) [(t, s)] = 0")
  case True
  have same: "deliver s w = w"
    using True by (rule deliver_ignored)
  have "rearming (currentUrl w) ((t, s) # rest) = rearming (currentUrl w) rest"
    using True by (cases s) (simp_all split: if_splits)
  then show ?thesis
    using assms(1,2,3) True by (simp add: same)
next
  case False
  show ?thesis
  proof (cases s)
    case (Mutations ms)
    have rel: "list_ex (\<lambda>m. fst m > 0 \<or> snd m > 0) ms"
      using False Mutations by (simp split: if_splits)
    have d: "deliver s w = debouncedRescan mutation w"
      using assms(1) rel Mutations by (simp add: deliver_mutations)
    have p: "pendingOk lo hi (debouncedRescan mutation w)"
      using assms(3,2,4,5) by (rule debouncedRescan_pending)
    have r: "rearming (currentUrl w) ((t, s) # rest) = Suc (rearming (currentUrl w) rest)"
      "rearming (currentUrl w) [(t, s)] = Suc 0"
      using rel Mutations by simp_all
    show ?thesis
      using assms(1,2) p r by (simp add: d debouncedRescan_fields [OF assms(3)])
  next
    case (Navigated u)
    have ne: "u \<noteq> currentUrl w"
      using False Navigated by (simp split: if_splits)
    let ?w0 = "w\<lparr> sent := sent w @ [SPA_NAVIGATE (currentUrl w) u], currentUrl := u \<rparr>"
    have d: "deliver s w = debouncedRescan navigation ?w0"
      using assms(1) ne Navigated by (simp add: deliver_navigated)
    have p0: "pendingOk lo hi ?w0"
      using assms(3) pendingOk_same [of ?w0 w lo hi] by simp
    have b: "0 < nextTimer ?w0" "lo \<le> now ?w0 + DEBOUNCE_MS" "now ?w0 + DEBOUNCE_MS \<le> hi"
      using assms(2,4,5) by simp_all
    have p: "pendingOk lo hi (debouncedRescan navigation ?w0)"
      using p0 b by (rule debouncedRescan_pending)
    have r: "rearming (currentUrl w) ((t, s) # rest) = Suc (rearming u rest)"
      "rearming (currentUrl w) [(t, s)] = Suc 0"
      using ne Navigated by simp_all
    show ?thesis
      using assms(1,2) p r by (simp add: d debouncedRescan_fields [OF p0])
  qed
qed

lemma run_burst:
  assumes "observing w" and "0 < nextTimer w" and "pendingOk lo hi w"
    and "sorted (map fst burst)"
    and "list_all (\<lambda>x. now w \<le> fst x \<and> fst x < lo \<and> lo \<le> fst x + DEBOUNCE_MS
                     \<and> fst x + DEBOUNCE_MS \<le> hi) burst"
  shows "reconciliations (run burst w) = reconciliations w
    \<and> pendingOk lo hi (run burst w)
    \<and> configured (run burst w) = configured w
    \<and> (timers (run burst w) = [] \<longleftrightarrow> timers w = [] \<and> rearming (currentUrl w) burst = 0)"
  using assms
proof (induction burst arbitrary: w)
  case Nil
  then show ?case by simp
next
  case (Cons x burst)
  obtain t s where x: "x = (t, s)" by (cases x)
  let ?w1 = "elapse t w"
  have t: "now w \<le> t" "t < lo" "lo \<le> t + DEBOUNCE_MS" "t + DEBOUNCE_MS \<le> hi"
    using Cons.prems(5) x by simp_all
  have e: "?w1 = w\<lparr> now := t \<rparr>"
    using elapse_early [OF Cons.prems(3) t(2)] t(1) by (simp add: max_def)
  have f1: "currentUrl ?w1 = currentUrl w" "timers ?w1 = timers w"
    "reconciliations ?w1 = reconciliations w" "configured ?w1 = configured w"
    "debounceTimer ?w1 = debounceTimer w" "now ?w1 = t" "observing ?w1 = observing w"
    "nextTimer ?w1 = nextTimer w"
    by (simp_all add: e)
  have p1: "pendingOk lo hi ?w1"
    using Cons.prems(3) pendingOk_same [of ?w1 w lo hi] f1(2,5) by simp
  have o1: "observing ?w1" "0 < nextTimer ?w1" "lo \<le> now ?w1 + DEBOUNCE_MS"
    "now ?w1 + DEBOUNCE_MS \<le> hi"
    using Cons.prems(1,2) t(3,4) by (simp_all add: f1)
  let ?w2 = "deliver s ?w1"
  note d = deliver_step [OF o1(1,2) p1 o1(3,4), of s t burst]
  have d1: "observing ?w2" and d2: "configured ?w2 = configured w"
    and d3: "0 < nextTimer ?w2" and d4: "pendingOk lo hi ?w2" and d5: "now ?w2 = t"
    and d6: "reconciliations ?w2 = reconciliations w"
    and d7: "timers ?w2 = [] \<longleftrightarrow> timers w = [] \<and> rearming (currentUrl w) [(t, s)] = 0"
    and d8: "rearming (currentUrl w) ((t, s) # burst)
        = rearming (currentUrl w) [(t, s)] + rearming (currentUrl ?w2) burst"
    using d by (simp_all add: f1)
  have srt: "sorted (map fst burst)" and first: "\<forall>y \<in> set burst. t \<le> fst y"
    using Cons.prems(4) x by simp_all
  have l: "list_all (\<lambda>x. now ?w2 \<le> fst x \<and> fst x < lo \<and> lo \<le> fst x + DEBOUNCE_MS
                     \<and> fst x + DEBOUNCE_MS \<le> hi) burst"
    using Cons.prems(5) first by (simp add: d5 list_all_iff)
  note ih = Cons.IH [OF d1 d3 d4 srt l]
  have i1: "reconciliations (run burst ?w2) = reconciliations ?w2"
    and i2: "pendingOk lo hi (run burst ?w2)"
    and i3: "configured (run burst ?w2) = configured ?w2"
    and i4: "timers (run burst ?w2) = [] \<longleftrightarrow> timers ?w2 = [] \<and> rearming (currentUrl ?w2) burst = 0"
    using ih by simp_all
  have r: "run (x # burst) w = run burst ?w2"
    by (simp add: x)
  have c1: "reconciliations (run (x # burst) w) = reconciliations w"
    by (simp only: r i1 d6)
  have c2: "pendingOk lo hi (run (x # burst) w)"
    by (simp only: r i2)
  have c3: "configured (run (x # burst) w) = configured w"
    by (simp only: r i3 d2)
  have c4: "timers (run (x # burst) w) = [] \<longleftrightarrow> timers w = [] \<and> rearming (currentUrl w) (x # burst) = 0"
  proof -
    have "timers (run (x # burst) w) = [] \<longleftrightarrow> timers (run burst ?w2) = []"
      by (simp only: r)
    also have "\<dots> \<longleftrightarrow> timers ?w2 = [] \<and> rearming (currentUrl ?w2) burst = 0"
      by (rule i4)
    also have "\<dots> \<longleftrightarrow> timers w = [] \<and> rearming (currentUrl w) [(t, s)] = 0
        \<and> rearming (currentUrl ?w2) burst = 0"
      using d7 by blast
    also have "\<dots> \<longleftrightarrow> timers w = [] \<and> rearming (currentUrl w) ((t, s) # burst) = 0"
      using d8 by auto
    finally show ?thesis
      by (simp only: x)
  qed
  show ?case
    using c1 c2 c3 c4 by simp
qed

lemma elapse_fires:
  assumes "pendingOk lo hi w" and "hi \<le> T" and "configured w"
  shows "length (reconciliations (elapse T w))
      = length (reconciliations w) + (if timers w = [] then 0 else 1)"
proof (cases "timers w")
  case Nil
  then show ?thesis by (simp add: elapse_def)
next
  case (Cons x xs)
  with assms have "xs = []" and "fst (snd x) \<le> T"
    by (auto simp: pendingOk_def split: list.splits)
  with Cons assms(3) show ?thesis
    by (simp add: elapse_def handleDOMChange_def)
qed

text \<open>
  Claim C9, amended. Take a watcher that observes, with no timer pending, and a burst of
  signals that arrive in time order within one debounce window (all less than 300 ms
  after the first). While the burst lasts no reconciliation runs and at most one timer
  is pending at any moment. Once 300 ms have passed after the last signal, exactly one
  reconciliation has run if at least one signal of the burst re-armed the timer (a
  mutation batch that adds or removes a node, or a navigation event whose location is
  not the last observed one), and none otherwise.
\<close>

theorem burst_yields_one_reconciliation:
  assumes "observing w" and "configured w" and "timers w = []" and "0 < nextTimer w"
    and "now w \<le> t0" and "withinWindow t0 burst"
    and "list_all (\<lambda>x. fst x + DEBOUNCE_MS \<le> T) burst"
  shows "length (reconciliations (elapse T (run burst w)))
      = length (reconciliations w) + (if 0 < rearming (currentUrl w) burst then 1 else 0)
    \<and> reconciliations (run burst w) = reconciliations w
    \<and> list_all (\<lambda>k. length (timers (run (take k burst) w)) \<le> 1) [0..<Suc (length burst)]"
proof -
  have p: "pendingOk (t0 + DEBOUNCE_MS) T w"
    using assms(3) by (simp add: pendingOk_def)
  have l: "list_all (\<lambda>x. now w \<le> fst x \<and> fst x < t0 + DEBOUNCE_MS
        \<and> t0 + DEBOUNCE_MS \<le> fst x + DEBOUNCE_MS \<and> fst x + DEBOUNCE_MS \<le> T) burst"
    using assms(5,6,7) by (auto simp: withinWindow_def list_all_iff)
  have s: "sorted (map fst burst)"
    using assms(6) by (simp add: withinWindow_def)
  note r = run_burst [OF assms(1,4) p s l]
  have a: "length (reconciliations (elapse T (run burst w)))
      = length (reconciliations w) + (if 0 < rearming (currentUrl w) burst then 1 else 0)"
    using elapse_fires [of "t0 + DEBOUNCE_MS" T "run burst w" T] r assms(2,3) by auto
  have b: "length (timers (run (take k burst) w)) \<le> 1" for k
  proof -
    have lk: "list_all (\<lambda>x. now w \<le> fst x \<and> fst x < t0 + DEBOUNCE_MS
        \<and> t0 + DEBOUNCE_MS \<le> fst x + DEBOUNCE_MS \<and> fst x + DEBOUNCE_MS \<le> T) (take k burst)"
      using l by (auto simp: list_all_iff dest: in_set_takeD)
    have sk: "sorted (map fst (take k burst))"
      using s by (simp add: take_map [symmetric] sorted_wrt_take)
    have "pendingOk (t0 + DEBOUNCE_MS) T (run (take k burst) w)"
      using run_burst [OF assms(1,4) p sk lk] by simp
    then show ?thesis
      by (auto simp: pendingOk_def split: list.splits)
  qed
  show ?thesis
    using a r b by (simp add: list_all_iff)
qed

text \<open>
  Claim C9, as stated, fails for \<open>N = 1\<close>: a navigation event that arrives while the
  location is the one last observed is dropped by \<^verbatim>\<open>handleNavigation\<close> before the
  debounce, and no reconciliation follows.
\<close>

theorem same_location_navigation_triggers_nothing:
  "observing activeWatcher
   \<and> withinWindow 0 [(0, Navigated ''http://localhost:8000/shop'')]
   \<and> reconciliations (elapse 1000 (run [(0, Navigated ''http://localhost:8000/shop'')] activeWatcher))
       = []"
  by (simp add: activeWatcher_def withinWindow_def DEBOUNCE_MS_def deliver_def
      handleNavigation_def elapse_def)

theorem burst_yields_one_reconciliation_witness:
  "length (reconciliations (elapse 1000
      (run [(0, Mutations [(1, 0)]), (40, Navigated ''http://localhost:8000/cart''),
            (45, Navigated ''http://localhost:8000/cart''), (290, Mutations [(0, 2)])]
        activeWatcher))) = 1
   \<and> reconciliations
      (run [(0, Mutations [(1, 0)]), (40, Navigated ''http://localhost:8000/cart''),
            (45, Navigated ''http://localhost:8000/cart''), (290, Mutations [(0, 2)])]
        activeWatcher) = []"
proof -
  let ?burst = "[(0, Mutations [(1, 0)]), (40, Navigated ''http://localhost:8000/cart''),
            (45, Navigated ''http://localhost:8000/cart''), (290, Mutations [(0, 2)])]"
  have h: "observing activeWatcher" "configured activeWatcher" "timers activeWatcher = []"
    "0 < nextTimer activeWatcher" "now activeWatcher \<le> 0"
    by (simp_all add: activeWatcher_def)
  have w: "withinWindow 0 ?burst"
    by (simp add: withinWindow_def DEBOUNCE_MS_def)
  have l: "list_all (\<lambda>x. fst x + DEBOUNCE_MS \<le> 1000) ?burst"
    by (simp add: DEBOUNCE_MS_def)
  have r: "rearming (currentUrl activeWatcher) ?burst = 3"
    by (simp add: activeWatcher_def)
  have e: "reconciliations activeWatcher = []"
    by (simp add: activeWatcher_def)
  from burst_yields_one_reconciliation [OF h w l] r e
  show ?thesis by simp
qed

end
